theory Spec2Isabelle
  imports
    Complex_Main
    "HOL-Library.Multiset"
    "HOL-Library.Char_ord"
    "HOL-Library.List_Lexorder"
    "HOL-Library.Product_Lexorder"
begin

section \<open>Text: regular expressions of the source and lower-casing\<close>

text \<open>
  The station files are decoded as Latin-1, so every character of a label or a cell is one
  code point below 256, which is what \<^typ>\<open>char\<close> holds.

  All regular expressions of \<^verbatim>\<open>analyser.py\<close> are sequences of single-character
  positions (a literal, a class such as \<^verbatim>\<open>[0-9]\<close>, the class \<^verbatim>\<open>\d\<close>, or a
  repetition \<^verbatim>\<open>{n}\<close> of one of them), optionally closed by \<^verbatim>\<open>$\<close>.  A pattern is
  therefore a list of character classes, a class being the list of the characters it
  accepts.  Within Latin-1, \<^verbatim>\<open>\d\<close> accepts the ten ASCII digits only.
\<close>

type_synonym pattern = "char list list"

definition digit :: "char list" where
  "digit = ''0123456789''"

definition lit :: "string \<Rightarrow> pattern" where
  "lit s = map (\<lambda>c. [c]) s"

text \<open>\<^verbatim>\<open>re.match(p, s)\<close> without \<^verbatim>\<open>$\<close>: the pattern matches a prefix of \<open>s\<close>.\<close>

fun re_match :: "pattern \<Rightarrow> string \<Rightarrow> bool" where
  "re_match [] s = True"
| "re_match (c # cs) [] = False"
| "re_match (c # cs) (x # xs) = (x \<in> set c \<and> re_match cs xs)"

text \<open>
  \<^verbatim>\<open>re.match(p + "$", s)\<close>: Python's \<^verbatim>\<open>$\<close> holds at the end of the string and also just
  before a newline that ends the string.
\<close>

fun re_match_end :: "pattern \<Rightarrow> string \<Rightarrow> bool" where
  "re_match_end [] s = (s = [] \<or> s = [CHR 0x0A])"
| "re_match_end (c # cs) [] = False"
| "re_match_end (c # cs) (x # xs) = (x \<in> set c \<and> re_match_end cs xs)"

text \<open>
  \<^verbatim>\<open>str.lower()\<close> on Latin-1 text: \<^verbatim>\<open>A\<close>..\<^verbatim>\<open>Z\<close> (65..90) and the accented capitals
  192..222 except the multiplication sign 215 move up by 32; every other character stays.
\<close>

definition lower_char :: "char \<Rightarrow> char" where
  "lower_char c =
     (let n = (of_char c :: nat)
      in if (65 \<le> n \<and> n \<le> 90) \<or> (192 \<le> n \<and> n \<le> 222 \<and> n \<noteq> 215)
         then char_of (n + 32) else c)"

definition lower :: "string \<Rightarrow> string" where
  "lower s = map lower_char s"

section \<open>SchemaNormalizer: \<^verbatim>\<open>columns_renamer\<close>\<close>

text \<open>
  The classes of the patterns: a letter with or without its accent (the accented letter by
  its Latin-1 code).
\<close>

definition c_cedilla :: "char list" where "c_cedilla = [CHR 0xE7, CHR ''c'']"
definition a_tilde :: "char list" where "a_tilde = [CHR 0xE3, CHR ''a'']"
definition a_acute :: "char list" where "a_acute = [CHR 0xE1, CHR ''a'']"
definition e_acute :: "char list" where "e_acute = [CHR 0xE9, CHR ''e'']"
definition i_acute :: "char list" where "i_acute = [CHR 0xED, CHR ''i'']"

text \<open>
  The chain of \<^verbatim>\<open>if re.match(p, name): return c\<close> lines, on the lower-cased name, in the
  order of the source.
\<close>

definition rename_lowered :: "string \<Rightarrow> string" where
  "rename_lowered name =
     (if re_match (lit ''data'') name then ''data''
      else if re_match (lit ''hora'') name then ''hora''
      else if re_match (lit ''precipita'' @ [c_cedilla, a_tilde] @ lit ''o'') name then ''precipitacao''
      else if re_match (lit ''press'' @ [a_tilde] @ lit ''o atmosf'' @ [e_acute] @ lit ''rica ao n'' @ [i_acute] @ lit ''vel'') name then ''pressao_atmosferica''
      else if re_match (lit ''press'' @ [a_tilde] @ lit ''o atmosf'' @ [e_acute] @ lit ''rica m'' @ [a_acute] @ lit ''x'') name then ''pressao_atmosferica_maxima''
      else if re_match (lit ''press'' @ [a_tilde] @ lit ''o atmosf'' @ [e_acute] @ lit ''rica m'' @ [i_acute] @ lit ''n'') name then ''pressao_atmosferica_minima''
      else if re_match (lit ''radia'' @ [c_cedilla, a_tilde] @ lit ''o'') name then ''radiacao''
      else if re_match (lit ''temperatura do ar'') name then ''temperatura_ar''
      else if re_match (lit ''temperatura do ponto de orvalho'') name then ''temperatura_orvalho''
      else if re_match (lit ''temperatura m'' @ [a_acute] @ lit ''x'') name then ''temperatura_maxima''
      else if re_match (lit ''temperatura m'' @ [i_acute] @ lit ''n'') name then ''temperatura_minima''
      else if re_match (lit ''temperatura orvalho m'' @ [a_acute] @ lit ''x'') name then ''temperatura_orvalho_maxima''
      else if re_match (lit ''temperatura orvalho m'' @ [i_acute] @ lit ''n'') name then ''temperatura_orvalho_minima''
      else if re_match (lit ''umidade rel. m'' @ [a_acute] @ lit ''x'') name then ''umidade_relativa_maxima''
      else if re_match (lit ''umidade rel. m'' @ [i_acute] @ lit ''n'') name then ''umidade_relativa_minima''
      else if re_match (lit ''umidade relativa do ar'') name then ''umidade_relativa''
      else if re_match (lit ''vento, dire'' @ [c_cedilla, a_tilde] @ lit ''o'') name then ''vento_direcao''
      else if re_match (lit ''vento, rajada'') name then ''vento_rajada''
      else if re_match (lit ''vento, velocidade'') name then ''vento_velocidade''
      else name)"

definition columns_renamer :: "string \<Rightarrow> string" where
  "columns_renamer name = rename_lowered (lower name)"

text \<open>
  The same rules as a table, to say of a label that no rule matches it
  (see \<open>rename_lowered_table\<close> below).
\<close>

definition rename_rules :: "(pattern \<times> string) list" where
  "rename_rules =
    [(lit ''data'', ''data''),
     (lit ''hora'', ''hora''),
     (lit ''precipita'' @ [c_cedilla, a_tilde] @ lit ''o'', ''precipitacao''),
     (lit ''press'' @ [a_tilde] @ lit ''o atmosf'' @ [e_acute] @ lit ''rica ao n'' @ [i_acute] @ lit ''vel'', ''pressao_atmosferica''),
     (lit ''press'' @ [a_tilde] @ lit ''o atmosf'' @ [e_acute] @ lit ''rica m'' @ [a_acute] @ lit ''x'', ''pressao_atmosferica_maxima''),
     (lit ''press'' @ [a_tilde] @ lit ''o atmosf'' @ [e_acute] @ lit ''rica m'' @ [i_acute] @ lit ''n'', ''pressao_atmosferica_minima''),
     (lit ''radia'' @ [c_cedilla, a_tilde] @ lit ''o'', ''radiacao''),
     (lit ''temperatura do ar'', ''temperatura_ar''),
     (lit ''temperatura do ponto de orvalho'', ''temperatura_orvalho''),
     (lit ''temperatura m'' @ [a_acute] @ lit ''x'', ''temperatura_maxima''),
     (lit ''temperatura m'' @ [i_acute] @ lit ''n'', ''temperatura_minima''),
     (lit ''temperatura orvalho m'' @ [a_acute] @ lit ''x'', ''temperatura_orvalho_maxima''),
     (lit ''temperatura orvalho m'' @ [i_acute] @ lit ''n'', ''temperatura_orvalho_minima''),
     (lit ''umidade rel. m'' @ [a_acute] @ lit ''x'', ''umidade_relativa_maxima''),
     (lit ''umidade rel. m'' @ [i_acute] @ lit ''n'', ''umidade_relativa_minima''),
     (lit ''umidade relativa do ar'', ''umidade_relativa''),
     (lit ''vento, dire'' @ [c_cedilla, a_tilde] @ lit ''o'', ''vento_direcao''),
     (lit ''vento, rajada'', ''vento_rajada''),
     (lit ''vento, velocidade'', ''vento_velocidade'')]"

section \<open>RecordDecoder: dates and hours\<close>

text \<open>\<^verbatim>\<open>convert_dates\<close>: \<^verbatim>\<open>str.replace("/", "-")\<close> on one cell.\<close>

definition convert_date :: "string \<Rightarrow> string" where
  "convert_date s = map (\<lambda>c. if c = CHR ''/'' then CHR ''-'' else c) s"

text \<open>\<^verbatim>\<open>fix_hour_string\<close>, the inner function of \<^verbatim>\<open>convert_hours\<close>.\<close>

definition pattern_HH_MM :: pattern where
  "pattern_HH_MM = [digit, digit] @ lit '':'' @ [digit, digit]"

definition pattern_HHMM :: pattern where
  "pattern_HHMM = [digit, digit, digit, digit]"

definition pattern_HH_UTC :: pattern where
  "pattern_HH_UTC = [digit, digit] @ lit '' UTC''"

definition pattern_HH :: pattern where
  "pattern_HH = [digit, digit]"

definition fix_hour_string :: "string \<Rightarrow> string" where
  "fix_hour_string hour =
     (if re_match_end pattern_HH_MM hour then hour
      else if re_match_end pattern_HHMM hour then take 2 hour @ '':'' @ drop 2 hour
      else if re_match_end pattern_HH_UTC hour then take 2 hour @ '':00''
      else if re_match pattern_HH hour then take 2 hour @ '':00''
      else ''00:00'')"

text \<open>
  \<^verbatim>\<open>str(hour)\<close> on a cell of the frame: a missing cell is the float NaN, whose string is
  \<^verbatim>\<open>nan\<close>.
\<close>

definition str_cell :: "string option \<Rightarrow> string" where
  "str_cell h = (case h of None \<Rightarrow> ''nan'' | Some s \<Rightarrow> s)"

section \<open>Values and library calls\<close>

text \<open>
  A float is a rational number or NaN (``undefined''); infinities are not modelled, and
  arithmetic is exact.  A timestamp has minute precision.
\<close>

datatype pyfloat = Num rat | NaN

record timestamp =
  ts_year :: nat
  ts_month :: nat
  ts_day :: nat
  ts_hour :: nat
  ts_minute :: nat

datatype exn = StopIteration | ValueError | KeyError | AttributeError | ParserError

text \<open>
  The parsers of Python and pandas that the source calls are parameters of the model.  A
  parser returns \<open>None\<close> where the library raises \<^verbatim>\<open>ValueError\<close>.
  \<^item> \<open>py_float\<close>: \<^verbatim>\<open>float(s)\<close>;
  \<^item> \<open>strptime_Ymd\<close>, \<open>strptime_dmy\<close>: \<^verbatim>\<open>datetime.strptime\<close> with \<^verbatim>\<open>%Y-%m-%d\<close> and
    \<^verbatim>\<open>%d/%m/%y\<close>;
  \<^item> \<open>pd_to_numeric\<close>: what \<^verbatim>\<open>pd.to_numeric\<close> makes of one string;
  \<^item> \<open>pd_to_datetime\<close>: what \<^verbatim>\<open>pd.to_datetime\<close> with \<^verbatim>\<open>%Y-%m-%d %H:%M\<close> makes of
    one string;
  \<^item> \<open>month_name\<close>: \<^verbatim>\<open>strftime('%B')\<close> in the locale of the process.
\<close>

record library =
  py_float :: "string \<Rightarrow> pyfloat option"
  strptime_Ymd :: "string \<Rightarrow> timestamp option"
  strptime_dmy :: "string \<Rightarrow> timestamp option"
  pd_to_numeric :: "string \<Rightarrow> pyfloat option"
  pd_to_datetime :: "string \<Rightarrow> timestamp option"
  month_name :: "nat \<Rightarrow> string"

definition comma_to_dot :: "string \<Rightarrow> string" where
  "comma_to_dot s = map (\<lambda>c. if c = CHR '','' then CHR ''.'' else c) s"

section \<open>MetadataReader: \<^verbatim>\<open>read_metadata\<close>\<close>

datatype fundacao = Raw string | Parsed timestamp

record station =
  regiao :: string
  uf :: string
  estacao :: string
  codigo_wmo :: string
  latitude :: pyfloat
  longitude :: pyfloat
  altitude :: pyfloat
  data_fundacao :: fundacao

text \<open>
  The header is what \<^verbatim>\<open>csv.reader\<close> yields for the file: a list of rows, each a list of
  fields.  \<^verbatim>\<open>_, v = next(reader)\<close> raises \<^verbatim>\<open>StopIteration\<close> when no row is left and
  \<^verbatim>\<open>ValueError\<close> when the row has not exactly two fields.
\<close>

definition next_value :: "string list list \<Rightarrow> exn + (string \<times> string list list)" where
  "next_value reader =
     (case reader of
        [] \<Rightarrow> Inl StopIteration
      | r # rest \<Rightarrow> (case r of [l, v] \<Rightarrow> Inr (v, rest) | _ \<Rightarrow> Inl ValueError))"

text \<open>The three \<^verbatim>\<open>try: float(...) except: np.nan\<close> blocks.\<close>

definition float_or_nan :: "library \<Rightarrow> string \<Rightarrow> pyfloat" where
  "float_or_nan lib s =
     (case py_float lib (comma_to_dot s) of None \<Rightarrow> NaN | Some x \<Rightarrow> x)"

definition pattern_Ymd :: pattern where
  "pattern_Ymd = [digit, digit, digit, digit] @ lit ''-'' @ [digit, digit] @ lit ''-'' @ [digit, digit]"

definition pattern_dmy :: pattern where
  "pattern_dmy = [digit, digit] @ lit ''/'' @ [digit, digit] @ lit ''/'' @ [digit, digit]"

definition parse_fundacao :: "library \<Rightarrow> string \<Rightarrow> exn + fundacao" where
  "parse_fundacao lib s =
     (if re_match pattern_Ymd s then
        (case strptime_Ymd lib s of None \<Rightarrow> Inl ValueError | Some t \<Rightarrow> Inr (Parsed t))
      else if re_match pattern_dmy s then
        (case strptime_dmy lib s of None \<Rightarrow> Inl ValueError | Some t \<Rightarrow> Inr (Parsed t))
      else Inr (Raw s))"

text \<open>An exception leaves the \<^verbatim>\<open>try\<close> block at the statement that raised it.\<close>

definition and_then :: "exn + 'a \<Rightarrow> ('a \<Rightarrow> exn + 'b) \<Rightarrow> exn + 'b" where
  "and_then r f = (case r of Inl e \<Rightarrow> Inl e | Inr x \<Rightarrow> f x)"

text \<open>The body of the outer \<^verbatim>\<open>try\<close>.\<close>

definition read_metadata_try :: "library \<Rightarrow> string list list \<Rightarrow> exn + station" where
  "read_metadata_try lib reader =
     and_then (next_value reader) (\<lambda>(v1, r1).
     and_then (next_value r1) (\<lambda>(v2, r2).
     and_then (next_value r2) (\<lambda>(v3, r3).
     and_then (next_value r3) (\<lambda>(v4, r4).
     and_then (next_value r4) (\<lambda>(v5, r5).
     and_then (next_value r5) (\<lambda>(v6, r6).
     and_then (next_value r6) (\<lambda>(v7, r7).
     and_then (next_value r7) (\<lambda>(v8, r8).
     and_then (parse_fundacao lib v8) (\<lambda>f.
       Inr \<lparr>regiao = v1, uf = v2, estacao = v3, codigo_wmo = v4,
            latitude = float_or_nan lib v5, longitude = float_or_nan lib v6,
            altitude = float_or_nan lib v7, data_fundacao = f\<rparr>)))))))))"

text \<open>
  What the run prints on \<^verbatim>\<open>stderr\<close> and \<^verbatim>\<open>stdout\<close>.
\<close>

datatype message =
    Erro_ao_ler_metadados exn
  | Erro_ao_processar string exn
  | Nenhum_csv_encontrado

text \<open>
  \<^verbatim>\<open>read_metadata\<close>: the \<^verbatim>\<open>except Exception\<close> branch prints the error and returns the
  empty dictionary, here \<open>None\<close>.  The result is paired with what was printed.
\<close>

definition read_metadata :: "library \<Rightarrow> string list list \<Rightarrow> message list \<times> station option" where
  "read_metadata lib reader =
     (case read_metadata_try lib reader of
        Inl e \<Rightarrow> ([Erro_ao_ler_metadados e], None)
      | Inr m \<Rightarrow> ([], Some m))"


section \<open>RecordDecoder: \<^verbatim>\<open>read_data\<close>\<close>

text \<open>
  \<^verbatim>\<open>pd.read_csv\<close> (eight lines skipped, the first 19 columns, every cell a string) either
  raises or returns a frame: the labels of the column header line and, per data row, one
  cell per label.  A cell is \<open>None\<close> where pandas has NaN: an empty cell, one of its default
  missing-value markers, or one of the sentinels \<^verbatim>\<open>-9999\<close> and \<^verbatim>\<open>-9999,0\<close>.
\<close>

record frame =
  labels :: "string list"
  body :: "string option list list"

definition numeric_cols :: "string list" where
  "numeric_cols =
    [''precipitacao'', ''pressao_atmosferica'', ''pressao_atmosferica_maxima'',
     ''pressao_atmosferica_minima'', ''radiacao'', ''temperatura_ar'',
     ''temperatura_orvalho'', ''temperatura_maxima'', ''temperatura_minima'',
     ''temperatura_orvalho_maxima'', ''temperatura_orvalho_minima'',
     ''umidade_relativa_maxima'', ''umidade_relativa_minima'', ''umidade_relativa'',
     ''vento_direcao'', ''vento_rajada'', ''vento_velocidade'']"

definition cols_to_keep :: "string list" where
  "cols_to_keep = numeric_cols @ [''data'', ''hora'']"

text \<open>The cell of column \<open>c\<close> in a row, given the (renamed) labels.\<close>

definition column :: "string list \<Rightarrow> string option list \<Rightarrow> string \<Rightarrow> string option" where
  "column names cells c = (case map_of (zip names cells) c of Some v \<Rightarrow> v | None \<Rightarrow> None)"

text \<open>
  \<^verbatim>\<open>pd.to_numeric(d[col].str.replace(',', '.'), errors='coerce')\<close> on one cell: NaN stays
  NaN, and a string that does not parse becomes NaN.
\<close>

definition coerce :: "library \<Rightarrow> string option \<Rightarrow> pyfloat" where
  "coerce lib cell =
     (case cell of
        None \<Rightarrow> NaN
      | Some s \<Rightarrow> (case pd_to_numeric lib (comma_to_dot s) of None \<Rightarrow> NaN | Some x \<Rightarrow> x))"

text \<open>
  A row of the frame \<open>d\<close> after the coercion loop: the numeric columns that the file has, in
  the order of \<open>numeric_cols\<close>, and the raw \<open>data\<close> and \<open>hora\<close> cells.
\<close>

record raw_row =
  numbers :: "(string \<times> pyfloat) list"
  data_cell :: "string option"
  hora_cell :: "string option"

definition coerce_row :: "library \<Rightarrow> string list \<Rightarrow> string list \<Rightarrow> string option list \<Rightarrow> raw_row" where
  "coerce_row lib names cols cells =
     \<lparr>numbers = map (\<lambda>c. (c, coerce lib (column names cells c))) cols,
      data_cell = column names cells ''data'',
      hora_cell = column names cells ''hora''\<rparr>"

text \<open>\<^verbatim>\<open>d[empty_columns].isnull().all(axis=1)\<close> on one row.\<close>

definition all_null :: "raw_row \<Rightarrow> bool" where
  "all_null r = list_all (\<lambda>(c, v). v = NaN) (numbers r)"

text \<open>
  The string handed to \<^verbatim>\<open>pd.to_datetime\<close> for one row:
  \<^verbatim>\<open>convert_dates(d["data"]) + " " + convert_hours(d["hora"])\<close>.  A missing date stays NaN.
\<close>

definition date_time_string :: "raw_row \<Rightarrow> string option" where
  "date_time_string r =
     (case data_cell r of
        None \<Rightarrow> None
      | Some s \<Rightarrow> Some (convert_date s @ '' '' @ fix_hour_string (str_cell (hora_cell r))))"

text \<open>
  \<^verbatim>\<open>pd.to_datetime(..., format="%Y-%m-%d %H:%M")\<close> with the default \<^verbatim>\<open>errors='raise'\<close>:
  NaN becomes NaT (\<open>None\<close>), and one string that does not parse raises for the whole column.
\<close>

fun to_datetime :: "library \<Rightarrow> string option list \<Rightarrow> exn + timestamp option list" where
  "to_datetime lib [] = Inr []"
| "to_datetime lib (None # xs) =
     and_then (to_datetime lib xs) (\<lambda>ts. Inr (None # ts))"
| "to_datetime lib (Some s # xs) =
     (case pd_to_datetime lib s of
        None \<Rightarrow> Inl ValueError
      | Some t \<Rightarrow> and_then (to_datetime lib xs) (\<lambda>ts. Inr (Some t # ts)))"

record decoded_row =
  measurements :: "(string \<times> pyfloat) list"
  data_hora :: "timestamp option"

text \<open>
  \<^verbatim>\<open>fix_data_hora\<close>.  \<^verbatim>\<open>d["data"]\<close> and \<^verbatim>\<open>d["hora"]\<close> raise \<^verbatim>\<open>KeyError\<close> when the column is
  missing; when two labels were renamed to the same name they are sub-frames, on which
  \<^verbatim>\<open>.str\<close> (for \<open>data\<close>) and the assignment of the new column (for \<open>hora\<close>) raise.
\<close>

definition fix_data_hora :: "library \<Rightarrow> string list \<Rightarrow> raw_row list \<Rightarrow> exn + decoded_row list" where
  "fix_data_hora lib names d =
     (if ''data'' \<notin> set names then Inl KeyError
      else if 1 < count_list names ''data'' then Inl AttributeError
      else if ''hora'' \<notin> set names then Inl KeyError
      else if 1 < count_list names ''hora'' then Inl ValueError
      else and_then (to_datetime lib (map date_time_string d)) (\<lambda>ts.
             Inr (map (\<lambda>(r, t). \<lparr>measurements = numbers r, data_hora = t\<rparr>) (zip d ts))))"

text \<open>
  The steps of \<^verbatim>\<open>read_data\<close> on the frame that \<^verbatim>\<open>pd.read_csv\<close> returned:
  \<^item> \<open>renamed_labels\<close>: the labels after \<^verbatim>\<open>d.rename(columns=columns_renamer)\<close>;
  \<^item> \<open>kept_columns\<close>: the columns of \<open>d\<close> after the selection of \<open>cols_to_keep\<close>;
  \<^item> \<open>empty_columns\<close>: the numeric columns that the file has (the list of that name in the
    source, which is also what the coercion loop visits);
  \<^item> \<open>coerced\<close>: the rows after the coercion loop;
  \<^item> \<open>survivors\<close>: the rows after the filter on rows that are null in all of
    \<open>empty_columns\<close>, which runs when \<open>d\<close> is not empty and \<open>empty_columns\<close> is not empty.
  \<^verbatim>\<open>d.empty\<close> holds when \<open>d\<close> has no row or no column.
\<close>

definition renamed_labels :: "frame \<Rightarrow> string list" where
  "renamed_labels fr = map columns_renamer (labels fr)"

definition kept_columns :: "frame \<Rightarrow> string list" where
  "kept_columns fr = filter (\<lambda>c. c \<in> set (renamed_labels fr)) cols_to_keep"

definition empty_columns :: "frame \<Rightarrow> string list" where
  "empty_columns fr = filter (\<lambda>c. c \<in> set (renamed_labels fr)) numeric_cols"

definition coerced :: "library \<Rightarrow> frame \<Rightarrow> raw_row list" where
  "coerced lib fr = map (coerce_row lib (renamed_labels fr) (empty_columns fr)) (body fr)"

definition survivors :: "library \<Rightarrow> frame \<Rightarrow> raw_row list" where
  "survivors lib fr =
     (let d = coerced lib fr
      in if \<not> (d = [] \<or> kept_columns fr = []) \<and> empty_columns fr \<noteq> []
         then filter (\<lambda>r. \<not> all_null r) d else d)"

text \<open>
  \<^verbatim>\<open>read_data\<close>.  The coercion loop raises on a numeric column whose name occurs twice
  (\<^verbatim>\<open>d[col]\<close> is then a frame, which has no \<^verbatim>\<open>.str\<close>).
\<close>

definition read_data :: "library \<Rightarrow> exn + frame \<Rightarrow> exn + decoded_row list" where
  "read_data lib csv =
     and_then csv (\<lambda>fr.
       if list_ex (\<lambda>c. 1 < count_list (renamed_labels fr) c) (empty_columns fr)
       then Inl AttributeError
       else
         let d = survivors lib fr
         in if d = [] \<or> kept_columns fr = [] then Inr [] else fix_data_hora lib (renamed_labels fr) d)"

section \<open>ArchiveIngester: \<^verbatim>\<open>read_zipfile\<close>\<close>

text \<open>
  An entry of the archive: its name, whether it is a directory, and what the two readers
  see when they open it: the rows that \<^verbatim>\<open>csv.reader\<close> yields, and the outcome of
  \<^verbatim>\<open>pd.read_csv\<close>.
\<close>

record zip_info =
  filename :: string
  is_dir :: bool
  metadata_lines :: "string list list"
  csv_table :: "exn + frame"

record row = decoded_row +
  meta :: station

definition endswith :: "string \<Rightarrow> string \<Rightarrow> bool" where
  "endswith s suffix = (length suffix \<le> length s \<and> drop (length s - length suffix) s = suffix)"

definition startswith :: "string \<Rightarrow> string \<Rightarrow> bool" where
  "startswith s prefix = (take (length prefix) s = prefix)"

definition eligible :: "zip_info \<Rightarrow> bool" where
  "eligible zf =
     (\<not> is_dir zf \<and> endswith (lower (filename zf)) ''.csv'' \<and> \<not> startswith (filename zf) ''__MACOSX'')"

text \<open>\<^verbatim>\<open>d.assign(**meta)\<close> on one row.\<close>

definition assign_meta :: "station \<Rightarrow> decoded_row \<Rightarrow> row" where
  "assign_meta m r = \<lparr>measurements = measurements r, data_hora = data_hora r, meta = m\<rparr>"

text \<open>
  The \<^verbatim>\<open>for zf in files\<close> loop, with the frame \<open>data\<close> and the printed messages as state.
  The \<^verbatim>\<open>try\<close> around the body of the loop catches what \<^verbatim>\<open>read_data\<close> raises.
\<close>

fun process_files :: "library \<Rightarrow> zip_info list \<Rightarrow> row list \<times> message list \<Rightarrow> row list \<times> message list" where
  "process_files lib [] st = st"
| "process_files lib (zf # files) (data, out) =
     (case read_metadata lib (metadata_lines zf) of
        (printed, None) \<Rightarrow> process_files lib files (data, out @ printed)
      | (printed, Some m) \<Rightarrow>
          (case read_data lib (csv_table zf) of
             Inl e \<Rightarrow>
               process_files lib files (data, out @ printed @ [Erro_ao_processar (filename zf) e])
           | Inr d \<Rightarrow>
               process_files lib files
                 (if d \<noteq> [] then data @ map (assign_meta m) d else data, out @ printed)))"

definition read_zipfile :: "library \<Rightarrow> zip_info list \<Rightarrow> row list \<times> message list" where
  "read_zipfile lib z =
     (let files = filter eligible z
      in if files = [] then ([], [Nenhum_csv_encontrado])
         else process_files lib files ([], []))"

text \<open>
  What one file adds to the frame and to the printed messages, read off the body of the
  loop, and whether processing it raised: the header was rejected, or \<^verbatim>\<open>read_data\<close>
  raised.
\<close>

definition file_rows :: "library \<Rightarrow> zip_info \<Rightarrow> row list" where
  "file_rows lib zf =
     (case read_metadata lib (metadata_lines zf) of
        (printed, None) \<Rightarrow> []
      | (printed, Some m) \<Rightarrow>
          (case read_data lib (csv_table zf) of Inl e \<Rightarrow> [] | Inr d \<Rightarrow> map (assign_meta m) d))"

definition file_messages :: "library \<Rightarrow> zip_info \<Rightarrow> message list" where
  "file_messages lib zf =
     (case read_metadata lib (metadata_lines zf) of
        (printed, None) \<Rightarrow> printed
      | (printed, Some m) \<Rightarrow>
          (case read_data lib (csv_table zf) of
             Inl e \<Rightarrow> printed @ [Erro_ao_processar (filename zf) e]
           | Inr d \<Rightarrow> printed))"

definition file_fails :: "library \<Rightarrow> zip_info \<Rightarrow> bool" where
  "file_fails lib zf =
     (case read_metadata lib (metadata_lines zf) of
        (printed, None) \<Rightarrow> True
      | (printed, Some m) \<Rightarrow> isl (read_data lib (csv_table zf)))"

section \<open>Aggregator: \<^verbatim>\<open>media_regional_mensal\<close>\<close>

text \<open>
  In the concatenated frame a column exists when one of the files had it, and a row from a
  file without the column holds NaN there.
\<close>

definition has_column :: "row list \<Rightarrow> string \<Rightarrow> bool" where
  "has_column df c = list_ex (\<lambda>r. c \<in> set (map fst (measurements r))) df"

definition cell :: "'a decoded_row_scheme \<Rightarrow> string \<Rightarrow> pyfloat" where
  "cell r c = (case map_of (measurements r) c of Some v \<Rightarrow> v | None \<Rightarrow> NaN)"

text \<open>The pandas \<^verbatim>\<open>mean\<close> of a group: NaN is skipped, and a group without a number gives NaN.\<close>

definition defined_values :: "pyfloat list \<Rightarrow> rat list" where
  "defined_values vs = concat (map (\<lambda>v. case v of Num x \<Rightarrow> [x] | NaN \<Rightarrow> []) vs)"

definition mean :: "pyfloat list \<Rightarrow> pyfloat" where
  "mean vs =
     (let xs = defined_values vs
      in if xs = [] then NaN else Num (sum_list xs / of_nat (length xs)))"

record aggregate_entry =
  entry_regiao :: string
  mes_num :: nat
  mes_nome :: string
  temperatura_media :: pyfloat
  umidade_media :: pyfloat

text \<open>
  The group of a row: \<^verbatim>\<open>(regiao, mes_num, mes_nome)\<close>.  A row without timestamp has NaN in
  \<^verbatim>\<open>mes_num\<close>, and \<^verbatim>\<open>groupby\<close> leaves such rows out.
\<close>

definition group_key :: "library \<Rightarrow> row \<Rightarrow> (string \<times> nat \<times> string) option" where
  "group_key lib r =
     (case data_hora r of
        None \<Rightarrow> None
      | Some t \<Rightarrow> Some (regiao (meta r), ts_month t, month_name lib (ts_month t)))"

text \<open>
  \<^verbatim>\<open>groupby\<close> yields the groups that occur, sorted by key; \<^verbatim>\<open>sort_values\<close> then sorts them
  (stably) by region and month number.  Strings compare by code point.
\<close>

definition group_keys :: "library \<Rightarrow> row list \<Rightarrow> (string \<times> nat \<times> string) list" where
  "group_keys lib df =
     sort_key (\<lambda>(g, m, n). (g, m)) (sort (remdups (List.map_filter (group_key lib) df)))"

definition group_entry :: "library \<Rightarrow> row list \<Rightarrow> string \<times> nat \<times> string \<Rightarrow> aggregate_entry" where
  "group_entry lib df k =
     (let grp = filter (\<lambda>r. group_key lib r = Some k) df
      in \<lparr>entry_regiao = fst k, mes_num = fst (snd k), mes_nome = snd (snd k),
          temperatura_media = mean (map (\<lambda>r. cell r ''temperatura_ar'') grp),
          umidade_media = mean (map (\<lambda>r. cell r ''umidade_relativa'') grp)\<rparr>)"

text \<open>
  The rows that count for region \<open>g\<close> and month \<open>m\<close>: those of a station of the region whose
  timestamp lies in the month.
\<close>

definition in_group :: "row \<Rightarrow> string \<Rightarrow> nat \<Rightarrow> bool" where
  "in_group r g m =
     (regiao (meta r) = g \<and> (case data_hora r of None \<Rightarrow> False | Some t \<Rightarrow> ts_month t = m))"

text \<open>The aggregation raises \<^verbatim>\<open>KeyError\<close> when no file had one of the two columns.\<close>

definition media_regional_mensal :: "library \<Rightarrow> row list \<Rightarrow> exn + aggregate_entry list" where
  "media_regional_mensal lib df_ano =
     (if has_column df_ano ''temperatura_ar'' \<and> has_column df_ano ''umidade_relativa''
      then Inr (map (group_entry lib df_ano) (group_keys lib df_ano))
      else Inl KeyError)"

section \<open>A reference library\<close>

text \<open>
  One concrete choice of the library parsers, for running the model on examples.  It reads
  plain decimal numbers and the fixed-width layouts of the three date formats, where it
  agrees with Python and pandas, and rejects every other string.
\<close>

definition number :: "string \<Rightarrow> nat" where
  "number s = foldl (\<lambda>n c. 10 * n + (of_char c - 48)) 0 s"

definition digits :: "string \<Rightarrow> bool" where
  "digits s = (s \<noteq> [] \<and> list_all (\<lambda>c. c \<in> set digit) s)"

definition decimal :: "string \<Rightarrow> pyfloat option" where
  "decimal s =
     (let u = (if take 1 s = ''-'' then drop 1 s else s);
          ip = takeWhile (\<lambda>c. c \<noteq> CHR ''.'') u;
          rest = dropWhile (\<lambda>c. c \<noteq> CHR ''.'') u;
          fp = drop 1 rest;
          v = (of_nat (number ip) + of_nat (number fp) / 10 ^ length fp :: rat)
      in if digits ip \<and> (rest = [] \<or> digits fp)
         then Some (Num (if take 1 s = ''-'' then - v else v)) else None)"

definition leap_year :: "nat \<Rightarrow> bool" where
  "leap_year y = (y mod 4 = 0 \<and> (y mod 100 \<noteq> 0 \<or> y mod 400 = 0))"

definition days_in_month :: "nat \<Rightarrow> nat \<Rightarrow> nat" where
  "days_in_month y m =
     (if m = 2 then (if leap_year y then 29 else 28)
      else if m = 4 \<or> m = 6 \<or> m = 9 \<or> m = 11 then 30 else 31)"

definition make_timestamp :: "nat \<Rightarrow> nat \<Rightarrow> nat \<Rightarrow> nat \<Rightarrow> nat \<Rightarrow> timestamp option" where
  "make_timestamp y m d h mi =
     (if 1 \<le> y \<and> 1 \<le> m \<and> m \<le> 12 \<and> 1 \<le> d \<and> d \<le> days_in_month y m \<and> h < 24 \<and> mi < 60
      then Some \<lparr>ts_year = y, ts_month = m, ts_day = d, ts_hour = h, ts_minute = mi\<rparr>
      else None)"

definition fixed_Ymd :: "string \<Rightarrow> timestamp option" where
  "fixed_Ymd s =
     (if length s = 10 \<and> re_match pattern_Ymd s
      then make_timestamp (number (take 4 s)) (number (take 2 (drop 5 s))) (number (drop 8 s)) 0 0
      else None)"

definition fixed_dmy :: "string \<Rightarrow> timestamp option" where
  "fixed_dmy s =
     (if length s = 8 \<and> re_match pattern_dmy s
      then (let yy = number (drop 6 s)
            in make_timestamp (if yy < 69 then 2000 + yy else 1900 + yy)
                 (number (take 2 (drop 3 s))) (number (take 2 s)) 0 0)
      else None)"

definition fixed_Ymd_HM :: "string \<Rightarrow> timestamp option" where
  "fixed_Ymd_HM s =
     (if length s = 16 \<and> re_match (pattern_Ymd @ lit '' '' @ [digit, digit] @ lit '':'' @ [digit, digit]) s
      then make_timestamp (number (take 4 s)) (number (take 2 (drop 5 s))) (number (take 2 (drop 8 s)))
             (number (take 2 (drop 11 s))) (number (drop 14 s))
      else None)"

definition nome_do_mes :: "nat \<Rightarrow> string" where
  "nome_do_mes m =
     (if 1 \<le> m \<and> m \<le> 12
      then [''janeiro'', ''fevereiro'', ''marco'', ''abril'', ''maio'', ''junho'', ''julho'',
            ''agosto'', ''setembro'', ''outubro'', ''novembro'', ''dezembro''] ! (m - 1)
      else [])"

definition reference_library :: library where
  "reference_library =
     \<lparr>py_float = decimal, strptime_Ymd = fixed_Ymd, strptime_dmy = fixed_dmy,
      pd_to_numeric = decimal, pd_to_datetime = fixed_Ymd_HM, month_name = nome_do_mes\<rparr>"


section \<open>Example files\<close>

text \<open>
  A metadata header of eight lines, with a longitude that is no number and a given
  founding date.
\<close>

definition header_example :: "string \<Rightarrow> string list list" where
  "header_example fundacao =
     [[''REGIAO:'', ''NE''], [''UF:'', ''BA''], [''ESTACAO:'', ''SALVADOR''],
      [''CODIGO (WMO):'', ''A401''], [''LATITUDE:'', ''-13,01''], [''LONGITUDE:'', ''F''],
      [''ALTITUDE:'', ''51,4''], [''DATA DE FUNDACAO:'', fundacao]]"

definition station_example :: "fundacao \<Rightarrow> station" where
  "station_example f =
     \<lparr>regiao = ''NE'', uf = ''BA'', estacao = ''SALVADOR'', codigo_wmo = ''A401'',
      latitude = Num (- (1301 / 100)), longitude = NaN, altitude = Num (257 / 5),
      data_fundacao = f\<rparr>"

definition may_13_2000 :: timestamp where
  "may_13_2000 = \<lparr>ts_year = 2000, ts_month = 5, ts_day = 13, ts_hour = 0, ts_minute = 0\<rparr>"

text \<open>
  The nineteen column labels of a station file (without accents), and a data line that
  has, besides date and hour, only the air temperature and the relative humidity.
\<close>

definition inmet_labels :: "string list" where
  "inmet_labels =
    [''Data'', ''Hora UTC'', ''PRECIPITACAO TOTAL, HORARIO (mm)'',
     ''PRESSAO ATMOSFERICA AO NIVEL DA ESTACAO, HORARIA (mB)'',
     ''PRESSAO ATMOSFERICA MAX.NA HORA ANT. (AUT) (mB)'',
     ''PRESSAO ATMOSFERICA MIN. NA HORA ANT. (AUT) (mB)'',
     ''RADIACAO GLOBAL (Kj/m2)'',
     ''TEMPERATURA DO AR - BULBO SECO, HORARIA (C)'',
     ''TEMPERATURA DO PONTO DE ORVALHO (C)'',
     ''TEMPERATURA MAXIMA NA HORA ANT. (AUT) (C)'',
     ''TEMPERATURA MINIMA NA HORA ANT. (AUT) (C)'',
     ''TEMPERATURA ORVALHO MAX. NA HORA ANT. (AUT) (C)'',
     ''TEMPERATURA ORVALHO MIN. NA HORA ANT. (AUT) (C)'',
     ''UMIDADE REL. MAX. NA HORA ANT. (AUT) (%)'',
     ''UMIDADE REL. MIN. NA HORA ANT. (AUT) (%)'',
     ''UMIDADE RELATIVA DO AR, HORARIA (%)'',
     ''VENTO, DIRECAO HORARIA (gr)'', ''VENTO, RAJADA MAXIMA (m/s)'',
     ''VENTO, VELOCIDADE HORARIA (m/s)'']"

definition inmet_line :: "string option \<Rightarrow> string option \<Rightarrow> string option \<Rightarrow> string option \<Rightarrow> string option list" where
  "inmet_line date hour temperature humidity =
     [date, hour, None, None, None, None, None, temperature, None, None, None, None,
      None, None, None, humidity, None, None, None]"

text \<open>The numeric columns of a decoded row of such a line.\<close>

definition measured :: "pyfloat \<Rightarrow> pyfloat \<Rightarrow> (string \<times> pyfloat) list" where
  "measured temperature humidity =
     map (\<lambda>c. (c, if c = ''temperatura_ar'' then temperature
                   else if c = ''umidade_relativa'' then humidity else NaN)) numeric_cols"

definition january :: "nat \<Rightarrow> nat \<Rightarrow> timestamp" where
  "january d h = \<lparr>ts_year = 2020, ts_month = 1, ts_day = d, ts_hour = h, ts_minute = 0\<rparr>"

text \<open>
  A file of region NE with three rows in January: temperatures 20.0, 22.0 and undefined,
  humidities 80.0, undefined and 70.0.
\<close>

definition january_frame :: frame where
  "january_frame =
     \<lparr>labels = inmet_labels,
      body = [inmet_line (Some ''2020/01/01'') (Some ''0000 UTC'') (Some ''20,0'') (Some ''80,0''),
              inmet_line (Some ''2020/01/01'') (Some ''0100 UTC'') (Some ''22,0'') None,
              inmet_line (Some ''2020/01/02'') (Some ''0200 UTC'') None (Some ''70,0'')]\<rparr>"

definition january_rows :: "decoded_row list" where
  "january_rows =
     [\<lparr>measurements = measured (Num 20) (Num 80), data_hora = Some (january 1 0)\<rparr>,
      \<lparr>measurements = measured (Num 22) NaN, data_hora = Some (january 1 1)\<rparr>,
      \<lparr>measurements = measured NaN (Num 70), data_hora = Some (january 2 2)\<rparr>]"

text \<open>
  A file with a row without any measurement, a row whose temperature is the sentinel (so
  the cell is missing) and whose humidity is no number, and a row with a humidity.
\<close>

definition sparse_frame :: frame where
  "sparse_frame =
     \<lparr>labels = inmet_labels,
      body = [inmet_line (Some ''2020/01/03'') (Some ''0300 UTC'') None None,
              inmet_line (Some ''2020/01/03'') (Some ''0400 UTC'') None (Some ''n/d''),
              inmet_line (Some ''2020/01/03'') (Some ''0500 UTC'') None (Some ''65'')]\<rparr>"

text \<open>
  A file whose second row has the date 30 February, and a file that, besides date and
  hour, has no column that the renamer recognises.
\<close>

definition bad_date_frame :: frame where
  "bad_date_frame =
     \<lparr>labels = inmet_labels,
      body = [inmet_line (Some ''2020/01/28'') (Some ''0000 UTC'') (Some ''20,0'') (Some ''80,0''),
              inmet_line (Some ''2020/02/30'') (Some ''0100 UTC'') (Some ''22,0'') (Some ''75,0'')]\<rparr>"

definition unnamed_labels :: "string list" where
  "unnamed_labels =
    [''Data'', ''Hora UTC'', ''Unnamed: 2'', ''Unnamed: 3'', ''Unnamed: 4'', ''Unnamed: 5'',
     ''Unnamed: 6'', ''Unnamed: 7'', ''Unnamed: 8'', ''Unnamed: 9'', ''Unnamed: 10'',
     ''Unnamed: 11'', ''Unnamed: 12'', ''Unnamed: 13'', ''Unnamed: 14'', ''Unnamed: 15'',
     ''Unnamed: 16'', ''Unnamed: 17'', ''Unnamed: 18'']"

definition unnamed_frame :: "string \<Rightarrow> frame" where
  "unnamed_frame hour =
     \<lparr>labels = unnamed_labels,
      body = [inmet_line (Some ''2020/01/01'') (Some hour) (Some ''20,0'') (Some ''80,0'')]\<rparr>"

text \<open>
  Three entries of an archive: a complete station file, the file with the date
  30 February, and one that ends after five lines (so that \<^verbatim>\<open>pd.read_csv\<close>, were it
  called, would raise).
\<close>

definition complete_entry :: zip_info where
  "complete_entry =
     \<lparr>filename = ''2020/INMET_NE_BA_A401_SALVADOR.CSV'', is_dir = False,
      metadata_lines = header_example ''2000-05-13'' @ [inmet_labels],
      csv_table = Inr january_frame\<rparr>"

text \<open>The frame of the run on the complete file alone.\<close>

definition january_dataset :: "row list" where
  "january_dataset = map (assign_meta (station_example (Parsed may_13_2000))) january_rows"

text \<open>
  The entry with the file that has no recognised numeric column, and the frame of the run
  on that file alone.
\<close>

definition unnamed_entry :: zip_info where
  "unnamed_entry =
     \<lparr>filename = ''2020/INMET_NE_BA_A404_VALENCA.CSV'', is_dir = False,
      metadata_lines = header_example ''2000-05-13'' @ [unnamed_labels],
      csv_table = Inr (unnamed_frame ''0000 UTC'')\<rparr>"

definition unnamed_dataset :: "row list" where
  "unnamed_dataset =
     [\<lparr>measurements = [], data_hora = Some (january 1 0),
       meta = station_example (Parsed may_13_2000)\<rparr>]"

definition bad_date_entry :: zip_info where
  "bad_date_entry =
     \<lparr>filename = ''2020/INMET_NE_BA_A403_ILHEUS.CSV'', is_dir = False,
      metadata_lines = header_example ''2000-05-13'' @ [inmet_labels],
      csv_table = Inr bad_date_frame\<rparr>"

definition truncated_entry :: zip_info where
  "truncated_entry =
     \<lparr>filename = ''2020/INMET_NE_BA_A402_BARREIRAS.CSV'', is_dir = False,
      metadata_lines = take 5 (header_example ''2000-05-13''),
      csv_table = Inl ParserError\<rparr>"

section \<open>Properties of the SchemaNormalizer\<close>

lemma lower_char_idem: "lower_char (lower_char c) = lower_char c"
  unfolding lower_char_def Let_def by auto

lemma lower_idem: "lower (lower s) = lower s"
  by (simp add: lower_def lower_char_idem)

text \<open>Matching a literal or a class against a string, one character at a time.\<close>

lemma re_match_lit_Nil: "re_match (lit [] @ p) s = re_match p s" "re_match (lit []) s = True"
  by (simp_all add: lit_def)

lemma re_match_lit_Cons:
  "re_match (lit (c # cs) @ p) s =
     (case s of [] \<Rightarrow> False | x # xs \<Rightarrow> if x = c then re_match (lit cs @ p) xs else False)"
  "re_match (lit (c # cs)) s =
     (case s of [] \<Rightarrow> False | x # xs \<Rightarrow> if x = c then re_match (lit cs) xs else False)"
  by (cases s; simp add: lit_def)+

lemma re_match_class:
  "re_match ((cl # q) @ p) s =
     (case s of [] \<Rightarrow> False | x # xs \<Rightarrow> if x \<in> set cl then re_match (q @ p) xs else False)"
  "re_match ([] @ p) s = re_match p s"
  "re_match (cl # q) s =
     (case s of [] \<Rightarrow> False | x # xs \<Rightarrow> if x \<in> set cl then re_match q xs else False)"
  by (cases s; simp)+

lemmas lower_eval = lower_def lower_char_def char_of_def bit_Suc_0_iff

lemmas rename_eval =
  columns_renamer_def rename_lowered_def re_match_lit_Nil re_match_lit_Cons re_match_class
  c_cedilla_def a_tilde_def a_acute_def e_acute_def i_acute_def

lemma rename_lowered_table:
  "rename_lowered name =
     (case find (\<lambda>(p, c). re_match p name) rename_rules of Some (p, c) \<Rightarrow> c | None \<Rightarrow> name)"
  unfolding rename_lowered_def rename_rules_def
  by (simp only: find.simps prod.case option.case if_distrib [where f = "case_option _ _"])

lemma columns_renamer_table:
  "columns_renamer name =
     (case find (\<lambda>(p, c). re_match p (lower name)) rename_rules of
        Some (p, c) \<Rightarrow> c | None \<Rightarrow> lower name)"
  by (simp add: columns_renamer_def rename_lowered_table)

lemma kept_all: "list_all (\<lambda>c. columns_renamer c = c) cols_to_keep"
  unfolding cols_to_keep_def numeric_cols_def append.simps list.pred_inject
  by (intro conjI TrueI; simp add: rename_eval lower_eval del: re_match.simps)

lemma kept_fixed: "\<forall>c\<in>set cols_to_keep. columns_renamer c = c"
  using kept_all by (simp only: list_all_iff)

lemma canonical_kept: "set (map snd rename_rules) = set cols_to_keep"
  by (auto simp: rename_rules_def cols_to_keep_def numeric_cols_def)

lemma find_rule_in: "find P rs = Some (p, c) \<Longrightarrow> c \<in> set (map snd rs)"
  by (induction rs) (auto split: if_splits)

lemma columns_renamer_lower: "columns_renamer (lower name) = columns_renamer name"
  by (simp add: columns_renamer_def lower_idem)

lemma find_None_rules: "(find (\<lambda>(p, c). re_match p s) rs = None) = (\<forall>(p, c)\<in>set rs. \<not> re_match p s)"
  by (induction rs) auto

text \<open>
  Claim C9.  \<^verbatim>\<open>columns_renamer\<close> is idempotent: renaming a label twice gives what renaming
  it once gives.  Each of the nineteen names that the decoder reads (the seventeen numeric
  columns, \<open>data\<close> and \<open>hora\<close>) is renamed to itself, and a label that no rule recognises is
  returned lower-cased.
\<close>

theorem columns_renamer_idempotent:
  "columns_renamer (columns_renamer name) = columns_renamer name
   \<and> (\<forall>c\<in>set cols_to_keep. columns_renamer c = c)
   \<and> ((\<forall>(p, c)\<in>set rename_rules. \<not> re_match p (lower name)) \<longrightarrow> columns_renamer name = lower name)"
proof (intro conjI impI)
  show "columns_renamer (columns_renamer name) = columns_renamer name"
  proof (cases "find (\<lambda>(p, c). re_match p (lower name)) rename_rules")
    case None
    then have "columns_renamer name = lower name"
      by (simp add: columns_renamer_table)
    then show ?thesis
      by (simp add: columns_renamer_lower)
  next
    case (Some pc)
    obtain p c where pc: "pc = (p, c)" by (cases pc)
    have "columns_renamer name = c"
      using Some pc by (simp add: columns_renamer_table)
    moreover have "c \<in> set cols_to_keep"
      using Some pc find_rule_in canonical_kept by fast
    ultimately show ?thesis
      using kept_fixed by blast
  qed
next
  show "\<forall>c\<in>set cols_to_keep. columns_renamer c = c"
    by (rule kept_fixed)
next
  assume "\<forall>(p, c)\<in>set rename_rules. \<not> re_match p (lower name)"
  then have "find (\<lambda>(p, c). re_match p (lower name)) rename_rules = None"
    by (simp add: find_None_rules)
  then show "columns_renamer name = lower name"
    by (simp add: columns_renamer_table)
qed

lemma lower_unnamed: "lower ''Unnamed: 19'' = ''unnamed: 19''"
  by (simp add: lower_eval)

lemma unrecognized_example:
  "list_all (\<lambda>(p, c). \<not> re_match p (lower ''Unnamed: 19'')) rename_rules"
  unfolding rename_rules_def list.pred_inject prod.case lower_unnamed
  by (intro conjI TrueI; simp add: rename_eval del: re_match.simps)

theorem columns_renamer_idempotent_witness:
  "list_all (\<lambda>(p, c). \<not> re_match p (lower ''Unnamed: 19'')) rename_rules
   \<and> columns_renamer ''Unnamed: 19'' = lower ''Unnamed: 19''
   \<and> columns_renamer (columns_renamer ''Unnamed: 19'') = columns_renamer ''Unnamed: 19''"
  using columns_renamer_idempotent [of "''Unnamed: 19''"] unrecognized_example
  unfolding list_all_iff by blast

section \<open>Properties of the hour decoder\<close>

lemma re_match_HH_cases:
  "re_match pattern_HH h \<longleftrightarrow> (\<exists>a b rest. h = a # b # rest \<and> a \<in> set digit \<and> b \<in> set digit)"
  unfolding pattern_HH_def
  by (cases h; simp; cases "tl h"; auto)

lemma earlier_patterns_start_with_HH:
  "re_match_end pattern_HH_MM h \<or> re_match_end pattern_HHMM h \<or> re_match_end pattern_HH_UTC h
     \<Longrightarrow> re_match pattern_HH h"
  unfolding pattern_HH_MM_def pattern_HHMM_def pattern_HH_UTC_def pattern_HH_def
  by (cases h; simp; cases "tl h"; auto)

lemma hour_of_HH_MM:
  "re_match_end pattern_HH_MM (a # b # rest) \<Longrightarrow> take 1 rest = '':''"
  unfolding pattern_HH_MM_def lit_def by (cases rest) auto

lemma fix_hour_string_hour:
  assumes "re_match pattern_HH h"
  shows "take 3 (fix_hour_string h) = take 2 h @ '':''"
proof -
  obtain a b rest where h: "h = a # b # rest"
    using assms re_match_HH_cases by blast
  show ?thesis
    using assms hour_of_HH_MM [of a b rest]
    by (simp add: fix_hour_string_def h)
qed

lemma fix_hour_string_no_hour:
  assumes "\<not> re_match pattern_HH h"
  shows "fix_hour_string h = ''00:00''"
  using assms earlier_patterns_start_with_HH [of h]
  by (auto simp: fix_hour_string_def)

lemma fix_hour_string_minute:
  assumes "\<not> re_match_end pattern_HH_MM h" "\<not> re_match_end pattern_HHMM h"
  shows "drop 3 (fix_hour_string h) = ''00''"
proof (cases "re_match pattern_HH h")
  case True
  then obtain a b rest where h: "h = a # b # rest"
    using re_match_HH_cases by blast
  show ?thesis using assms True by (simp add: fix_hour_string_def h)
next
  case False
  then show ?thesis by (simp add: fix_hour_string_no_hour)
qed

text \<open>
  Claim C1.  \<^verbatim>\<open>fix_hour_string\<close> tries its patterns in a fixed order: \<^verbatim>\<open>HH:MM\<close> (kept),
  then \<^verbatim>\<open>HHMM\<close> (a colon is put after two digits), then \<^verbatim>\<open>HH UTC\<close> (the hour with
  minute 00), then two leading digits (the hour with minute 00), and otherwise the result
  is \<^verbatim>\<open>00:00\<close>.  The strings \<^verbatim>\<open>23:59\<close>, \<^verbatim>\<open>2359\<close>, \<^verbatim>\<open>23 UTC\<close>, \<^verbatim>\<open>23X\<close> and
  \<^verbatim>\<open>garbage\<close> become \<^verbatim>\<open>23:59\<close>, \<^verbatim>\<open>23:59\<close>, \<^verbatim>\<open>23:00\<close>, \<^verbatim>\<open>23:00\<close> and \<^verbatim>\<open>00:00\<close>:
  hours 23, 23, 23, 23, 00 and minutes 59, 59, 00, 00, 00.  In every case the hour of the
  result is the leading two digits of the input when it has them, and the minute is 00
  unless one of the first two patterns matched.
\<close>

theorem fix_hour_string_fallback_chain:
  "(re_match_end pattern_HH_MM h \<longrightarrow> fix_hour_string h = h)
   \<and> (\<not> re_match_end pattern_HH_MM h \<and> re_match_end pattern_HHMM h
        \<longrightarrow> fix_hour_string h = take 2 h @ '':'' @ drop 2 h)
   \<and> (\<not> re_match_end pattern_HH_MM h \<and> \<not> re_match_end pattern_HHMM h \<and> re_match_end pattern_HH_UTC h
        \<longrightarrow> fix_hour_string h = take 2 h @ '':00'')
   \<and> (\<not> re_match_end pattern_HH_MM h \<and> \<not> re_match_end pattern_HHMM h \<and> \<not> re_match_end pattern_HH_UTC h
        \<and> re_match pattern_HH h \<longrightarrow> fix_hour_string h = take 2 h @ '':00'')
   \<and> (\<not> re_match pattern_HH h \<longrightarrow> fix_hour_string h = ''00:00'')
   \<and> (re_match pattern_HH h \<longrightarrow> take 3 (fix_hour_string h) = take 2 h @ '':'')
   \<and> (\<not> re_match_end pattern_HH_MM h \<and> \<not> re_match_end pattern_HHMM h
        \<longrightarrow> drop 3 (fix_hour_string h) = ''00'')
   \<and> map fix_hour_string [''23:59'', ''2359'', ''23 UTC'', ''23X'', ''garbage'']
       = [''23:59'', ''23:59'', ''23:00'', ''23:00'', ''00:00'']"
proof -
  have chain:
    "(re_match_end pattern_HH_MM h \<longrightarrow> fix_hour_string h = h)
     \<and> (\<not> re_match_end pattern_HH_MM h \<and> re_match_end pattern_HHMM h
          \<longrightarrow> fix_hour_string h = take 2 h @ '':'' @ drop 2 h)
     \<and> (\<not> re_match_end pattern_HH_MM h \<and> \<not> re_match_end pattern_HHMM h \<and> re_match_end pattern_HH_UTC h
          \<longrightarrow> fix_hour_string h = take 2 h @ '':00'')
     \<and> (\<not> re_match_end pattern_HH_MM h \<and> \<not> re_match_end pattern_HHMM h \<and> \<not> re_match_end pattern_HH_UTC h
          \<and> re_match pattern_HH h \<longrightarrow> fix_hour_string h = take 2 h @ '':00'')"
    by (simp add: fix_hour_string_def)
  have examples:
    "map fix_hour_string [''23:59'', ''2359'', ''23 UTC'', ''23X'', ''garbage'']
       = [''23:59'', ''23:59'', ''23:00'', ''23:00'', ''00:00'']"
    by (simp add: fix_hour_string_def pattern_HH_MM_def pattern_HHMM_def pattern_HH_UTC_def
        pattern_HH_def digit_def lit_def)
  show ?thesis
    using chain examples fix_hour_string_hour [of h] fix_hour_string_no_hour [of h]
      fix_hour_string_minute [of h]
    by blast
qed

theorem fix_hour_string_fallback_chain_witness:
  "re_match_end pattern_HH_MM ''23:59'' \<and> fix_hour_string ''23:59'' = ''23:59''
   \<and> \<not> re_match_end pattern_HH_MM ''2359'' \<and> re_match_end pattern_HHMM ''2359''
   \<and> fix_hour_string ''2359'' = ''23:59''
   \<and> \<not> re_match_end pattern_HH_MM ''23 UTC'' \<and> \<not> re_match_end pattern_HHMM ''23 UTC''
   \<and> re_match_end pattern_HH_UTC ''23 UTC'' \<and> fix_hour_string ''23 UTC'' = ''23:00''
   \<and> \<not> re_match_end pattern_HH_MM ''23X'' \<and> \<not> re_match_end pattern_HHMM ''23X''
   \<and> \<not> re_match_end pattern_HH_UTC ''23X'' \<and> re_match pattern_HH ''23X''
   \<and> fix_hour_string ''23X'' = ''23:00''
   \<and> \<not> re_match_end pattern_HH_MM ''garbage'' \<and> \<not> re_match_end pattern_HHMM ''garbage''
   \<and> \<not> re_match_end pattern_HH_UTC ''garbage'' \<and> \<not> re_match pattern_HH ''garbage''
   \<and> fix_hour_string ''garbage'' = ''00:00''"
  using fix_hour_string_fallback_chain [of "''23:59''"] fix_hour_string_fallback_chain [of "''2359''"]
    fix_hour_string_fallback_chain [of "''23 UTC''"] fix_hour_string_fallback_chain [of "''23X''"]
    fix_hour_string_fallback_chain [of "''garbage''"]
  by (simp add: pattern_HH_MM_def pattern_HHMM_def pattern_HH_UTC_def pattern_HH_def digit_def lit_def)


section \<open>The reference library on the examples\<close>

lemma reference_selectors:
  "py_float reference_library = decimal" "strptime_Ymd reference_library = fixed_Ymd"
  "strptime_dmy reference_library = fixed_dmy" "pd_to_numeric reference_library = decimal"
  "pd_to_datetime reference_library = fixed_Ymd_HM" "month_name reference_library = nome_do_mes"
  by (simp_all add: reference_library_def)

lemma decimal_examples:
  "decimal ''20.0'' = Some (Num 20)" "decimal ''22.0'' = Some (Num 22)"
  "decimal ''80.0'' = Some (Num 80)" "decimal ''70.0'' = Some (Num 70)"
  "decimal ''75.0'' = Some (Num 75)" "decimal ''65'' = Some (Num 65)"
  "decimal ''n/d'' = None" "decimal ''F'' = None"
  "decimal ''-13.01'' = Some (Num (- (1301 / 100)))" "decimal ''51.4'' = Some (Num (257 / 5))"
  by (simp_all add: decimal_def number_def digits_def digit_def)

lemma coerce_examples:
  "coerce reference_library None = NaN"
  "coerce reference_library (Some ''20,0'') = Num 20"
  "coerce reference_library (Some ''22,0'') = Num 22"
  "coerce reference_library (Some ''80,0'') = Num 80"
  "coerce reference_library (Some ''70,0'') = Num 70"
  "coerce reference_library (Some ''75,0'') = Num 75"
  "coerce reference_library (Some ''65'') = Num 65"
  "coerce reference_library (Some ''n/d'') = NaN"
  by (simp_all add: coerce_def reference_selectors comma_to_dot_def decimal_examples)

lemmas hour_eval =
  fix_hour_string_def pattern_HH_MM_def pattern_HHMM_def pattern_HH_UTC_def pattern_HH_def
  digit_def lit_def

lemma hour_examples:
  "fix_hour_string ''0000 UTC'' = ''00:00''" "fix_hour_string ''0100 UTC'' = ''01:00''"
  "fix_hour_string ''0200 UTC'' = ''02:00''" "fix_hour_string ''0300 UTC'' = ''03:00''"
  "fix_hour_string ''0400 UTC'' = ''04:00''" "fix_hour_string ''0500 UTC'' = ''05:00''"
  "fix_hour_string ''25:00'' = ''25:00''"
  by (simp_all add: hour_eval)

lemma date_examples:
  "convert_date ''2020/01/01'' = ''2020-01-01''" "convert_date ''2020/01/02'' = ''2020-01-02''"
  "convert_date ''2020/01/03'' = ''2020-01-03''" "convert_date ''2020/01/28'' = ''2020-01-28''"
  "convert_date ''2020/02/30'' = ''2020-02-30''"
  by (simp_all add: convert_date_def)

lemmas timestamp_eval =
  fixed_Ymd_HM_def pattern_Ymd_def digit_def lit_def make_timestamp_def number_def
  days_in_month_def leap_year_def

lemma timestamp_examples:
  "fixed_Ymd_HM ''2020-01-01 00:00'' = Some (january 1 0)"
  "fixed_Ymd_HM ''2020-01-01 01:00'' = Some (january 1 1)"
  "fixed_Ymd_HM ''2020-01-02 02:00'' = Some (january 2 2)"
  "fixed_Ymd_HM ''2020-01-03 03:00'' = Some (january 3 3)"
  "fixed_Ymd_HM ''2020-01-03 04:00'' = Some (january 3 4)"
  "fixed_Ymd_HM ''2020-01-03 05:00'' = Some (january 3 5)"
  "fixed_Ymd_HM ''2020-01-28 00:00'' = Some (january 28 0)"
  "fixed_Ymd_HM ''2020-02-30 01:00'' = None"
  "fixed_Ymd_HM ''2020-01-01 25:00'' = None"
  by (simp_all add: timestamp_eval january_def)

lemma fixed_date_examples:
  "fixed_Ymd ''2000-05-13'' = Some may_13_2000"
  "fixed_dmy ''13/05/00'' = Some may_13_2000"
  "fixed_dmy ''13/05/2000'' = None"
  by (simp_all add: fixed_Ymd_def fixed_dmy_def pattern_Ymd_def pattern_dmy_def digit_def lit_def
      make_timestamp_def number_def days_in_month_def leap_year_def may_13_2000_def)

lemma fundacao_pattern_examples:
  "\<not> re_match pattern_Ymd ''07.05.2000''" "\<not> re_match pattern_dmy ''07.05.2000''"
  "\<not> re_match pattern_Ymd ''desconhecida''" "\<not> re_match pattern_dmy ''desconhecida''"
  "re_match pattern_Ymd ''2000-05-13''"
  "\<not> re_match pattern_Ymd ''13/05/00''" "re_match pattern_dmy ''13/05/00''"
  "\<not> re_match pattern_Ymd ''13/05/2000''" "re_match pattern_dmy ''13/05/2000''"
  by (simp_all add: pattern_Ymd_def pattern_dmy_def digit_def lit_def)

lemma float_or_nan_examples:
  "float_or_nan reference_library ''-13,01'' = Num (- (1301 / 100))"
  "float_or_nan reference_library ''F'' = NaN"
  "float_or_nan reference_library ''51,4'' = Num (257 / 5)"
  by (simp_all add: float_or_nan_def reference_selectors comma_to_dot_def decimal_examples)

section \<open>Properties of the MetadataReader\<close>

lemma next_value_pair: "next_value ([l, v] # rest) = Inr (v, rest)"
  by (simp add: next_value_def)

text \<open>On eight lines of two fields each, only the founding date can fail the header.\<close>

lemma read_metadata_try_eight:
  "read_metadata_try lib
     ([l1, v1] # [l2, v2] # [l3, v3] # [l4, v4] # [l5, v5] # [l6, v6] # [l7, v7] # [l8, v8] # rest) =
   and_then (parse_fundacao lib v8) (\<lambda>f.
     Inr \<lparr>regiao = v1, uf = v2, estacao = v3, codigo_wmo = v4,
          latitude = float_or_nan lib v5, longitude = float_or_nan lib v6,
          altitude = float_or_nan lib v7, data_fundacao = f\<rparr>)"
  by (simp add: read_metadata_try_def next_value_pair and_then_def)

lemma read_metadata_example:
  "read_metadata reference_library (header_example f @ rest) =
     (case parse_fundacao reference_library f of
        Inl e \<Rightarrow> ([Erro_ao_ler_metadados e], None)
      | Inr d \<Rightarrow> ([], Some (station_example d)))"
  unfolding header_example_def read_metadata_def append.simps read_metadata_try_eight
  by (simp add: and_then_def station_example_def float_or_nan_examples split: sum.splits)

text \<open>
  A founding date with a four-digit year begins like \<^verbatim>\<open>DD/MM/YY\<close>, so \<^verbatim>\<open>strptime\<close> is
  called on it and raises: the header is rejected as a whole.
\<close>

lemma read_metadata_unparsed_date_rejects_header:
  "read_metadata reference_library (header_example ''13/05/2000'') =
     ([Erro_ao_ler_metadados ValueError], None)"
  using read_metadata_example [of "''13/05/2000''" "[]"]
  by (simp add: parse_fundacao_def fundacao_pattern_examples reference_selectors fixed_date_examples)

text \<open>
  Claim C2, as amended.  For a header of eight lines that each split into label and value:
  a latitude, longitude or altitude that \<^verbatim>\<open>float\<close> rejects becomes NaN and the header is
  still read; a founding date that begins with neither \<^verbatim>\<open>YYYY-MM-DD\<close> nor \<^verbatim>\<open>DD/MM/YY\<close>
  is not fatal and stays in the descriptor as the raw string (it does not become an
  undefined date); a founding date that begins with one of the two patterns and that
  \<^verbatim>\<open>strptime\<close> accepts in that format becomes that date.
\<close>

theorem read_metadata_field_fallbacks:
  assumes "reader =
    [l1, v1] # [l2, v2] # [l3, v3] # [l4, v4] # [l5, v5] # [l6, v6] # [l7, v7] # [l8, v8] # rest"
  shows
    "(\<not> re_match pattern_Ymd v8 \<and> \<not> re_match pattern_dmy v8 \<longrightarrow>
        read_metadata lib reader =
          ([], Some \<lparr>regiao = v1, uf = v2, estacao = v3, codigo_wmo = v4,
             latitude = (case py_float lib (comma_to_dot v5) of None \<Rightarrow> NaN | Some x \<Rightarrow> x),
             longitude = (case py_float lib (comma_to_dot v6) of None \<Rightarrow> NaN | Some x \<Rightarrow> x),
             altitude = (case py_float lib (comma_to_dot v7) of None \<Rightarrow> NaN | Some x \<Rightarrow> x),
             data_fundacao = Raw v8\<rparr>))
     \<and> (re_match pattern_Ymd v8 \<and> strptime_Ymd lib v8 = Some t \<longrightarrow>
        read_metadata lib reader =
          ([], Some \<lparr>regiao = v1, uf = v2, estacao = v3, codigo_wmo = v4,
             latitude = (case py_float lib (comma_to_dot v5) of None \<Rightarrow> NaN | Some x \<Rightarrow> x),
             longitude = (case py_float lib (comma_to_dot v6) of None \<Rightarrow> NaN | Some x \<Rightarrow> x),
             altitude = (case py_float lib (comma_to_dot v7) of None \<Rightarrow> NaN | Some x \<Rightarrow> x),
             data_fundacao = Parsed t\<rparr>))
     \<and> (\<not> re_match pattern_Ymd v8 \<and> re_match pattern_dmy v8 \<and> strptime_dmy lib v8 = Some t \<longrightarrow>
        read_metadata lib reader =
          ([], Some \<lparr>regiao = v1, uf = v2, estacao = v3, codigo_wmo = v4,
             latitude = (case py_float lib (comma_to_dot v5) of None \<Rightarrow> NaN | Some x \<Rightarrow> x),
             longitude = (case py_float lib (comma_to_dot v6) of None \<Rightarrow> NaN | Some x \<Rightarrow> x),
             altitude = (case py_float lib (comma_to_dot v7) of None \<Rightarrow> NaN | Some x \<Rightarrow> x),
             data_fundacao = Parsed t\<rparr>))"
  unfolding assms read_metadata_def read_metadata_try_eight
  by (simp add: parse_fundacao_def and_then_def float_or_nan_def)

theorem read_metadata_field_fallbacks_witness:
  "\<not> re_match pattern_Ymd ''desconhecida'' \<and> \<not> re_match pattern_dmy ''desconhecida''
   \<and> py_float reference_library (comma_to_dot ''F'') = None
   \<and> read_metadata reference_library (header_example ''desconhecida'') =
       ([], Some (station_example (Raw ''desconhecida'')))
   \<and> re_match pattern_Ymd ''2000-05-13''
   \<and> strptime_Ymd reference_library ''2000-05-13'' = Some may_13_2000
   \<and> read_metadata reference_library (header_example ''2000-05-13'') =
       ([], Some (station_example (Parsed may_13_2000)))
   \<and> \<not> re_match pattern_Ymd ''13/05/00'' \<and> re_match pattern_dmy ''13/05/00''
   \<and> strptime_dmy reference_library ''13/05/00'' = Some may_13_2000
   \<and> read_metadata reference_library (header_example ''13/05/00'') =
       ([], Some (station_example (Parsed may_13_2000)))"
  using
    read_metadata_field_fallbacks [OF header_example_def [of "''desconhecida''"],
      where lib = reference_library]
    read_metadata_field_fallbacks [OF header_example_def [of "''2000-05-13''"],
      where lib = reference_library and t = may_13_2000]
    read_metadata_field_fallbacks [OF header_example_def [of "''13/05/00''"],
      where lib = reference_library and t = may_13_2000]
  by (simp add: fundacao_pattern_examples reference_selectors comma_to_dot_def decimal_examples
      fixed_date_examples station_example_def)

text \<open>
  The claim as it was stated fails on the founding date \<^verbatim>\<open>07.05.2000\<close>, which matches
  neither format: the descriptor holds the raw string.
\<close>

theorem read_metadata_raw_fundacao_counterexample:
  "read_metadata reference_library (header_example ''07.05.2000'') =
     ([], Some \<lparr>regiao = ''NE'', uf = ''BA'', estacao = ''SALVADOR'', codigo_wmo = ''A401'',
        latitude = Num (- (1301 / 100)), longitude = NaN, altitude = Num (257 / 5),
        data_fundacao = Raw ''07.05.2000''\<rparr>)"
  using read_metadata_example [of "''07.05.2000''" "[]"]
  by (simp add: parse_fundacao_def fundacao_pattern_examples station_example_def)

section \<open>Properties of the RecordDecoder\<close>

lemma and_then_Inr: "and_then r f = Inr y \<longleftrightarrow> (\<exists>x. r = Inr x \<and> f x = Inr y)"
  by (cases r) (simp_all add: and_then_def)

lemma to_datetime_Inr:
  "to_datetime lib xs = Inr ts \<longleftrightarrow>
     ts = map (\<lambda>x. case x of None \<Rightarrow> None | Some s \<Rightarrow> pd_to_datetime lib s) xs
     \<and> (\<forall>s. Some s \<in> set xs \<longrightarrow> pd_to_datetime lib s \<noteq> None)"
proof (induction xs arbitrary: ts)
  case Nil
  show ?case by auto
next
  case (Cons x xs)
  show ?case
  proof (cases x)
    case None
    then show ?thesis
      using Cons.IH by (auto simp: and_then_Inr)
  next
    case (Some s)
    then show ?thesis
      using Cons.IH by (cases "pd_to_datetime lib s") (auto simp: and_then_Inr)
  qed
qed

lemma to_datetime_Inl: "to_datetime lib xs = Inl e \<Longrightarrow> e = ValueError"
proof (induction xs)
  case Nil
  then show ?case by simp
next
  case (Cons x xs)
  then show ?case
    by (cases x; cases "to_datetime lib xs")
       (auto simp: and_then_def split: option.splits)
qed

text \<open>The rows that \<^verbatim>\<open>fix_data_hora\<close> returns, when it returns.\<close>

lemma fix_data_hora_Inr:
  assumes "fix_data_hora lib names d = Inr out"
  shows "map measurements out = map numbers d"
    and "map data_hora out =
      map (\<lambda>r. case date_time_string r of None \<Rightarrow> None | Some s \<Rightarrow> pd_to_datetime lib s) d"
    and "\<forall>r s. r \<in> set d \<and> date_time_string r = Some s \<longrightarrow> pd_to_datetime lib s \<noteq> None"
proof -
  obtain ts where ts: "to_datetime lib (map date_time_string d) = Inr ts"
    and out: "out = map (\<lambda>(r, t). \<lparr>measurements = numbers r, data_hora = t\<rparr>) (zip d ts)"
    using assms by (auto simp: fix_data_hora_def and_then_Inr split: if_splits)
  have len: "length ts = length d"
    using ts by (simp add: to_datetime_Inr)
  show "map measurements out = map numbers d"
    unfolding out using len by (induction d ts rule: list_induct2') auto
  have "ts = map (\<lambda>x. case x of None \<Rightarrow> None | Some s \<Rightarrow> pd_to_datetime lib s) (map date_time_string d)"
    using ts by (simp add: to_datetime_Inr)
  then have ts_eq: "ts = map (\<lambda>r. case date_time_string r of None \<Rightarrow> None | Some s \<Rightarrow> pd_to_datetime lib s) d"
    by (simp add: comp_def)
  have "map data_hora out = ts"
    unfolding out using len by (induction d ts rule: list_induct2') auto
  then show "map data_hora out =
      map (\<lambda>r. case date_time_string r of None \<Rightarrow> None | Some s \<Rightarrow> pd_to_datetime lib s) d"
    using ts_eq by simp
  show "\<forall>r s. r \<in> set d \<and> date_time_string r = Some s \<longrightarrow> pd_to_datetime lib s \<noteq> None"
    using ts by (force simp: to_datetime_Inr)
qed

text \<open>\<^verbatim>\<open>read_data\<close> returns the empty frame early, or what \<^verbatim>\<open>fix_data_hora\<close> returns.\<close>

lemma read_data_Inr:
  assumes "read_data lib (Inr fr) = Inr out"
  shows "(out = [] \<and> (survivors lib fr = [] \<or> kept_columns fr = []))
         \<or> (survivors lib fr \<noteq> [] \<and> kept_columns fr \<noteq> []
             \<and> fix_data_hora lib (renamed_labels fr) (survivors lib fr) = Inr out)"
  using assms by (auto simp: read_data_def and_then_def Let_def split: if_splits)

lemma kept_columns_Nil:
  "kept_columns fr = [] \<longleftrightarrow>
     empty_columns fr = [] \<and> ''data'' \<notin> set (renamed_labels fr) \<and> ''hora'' \<notin> set (renamed_labels fr)"
  by (auto simp: kept_columns_def empty_columns_def cols_to_keep_def filter_empty_conv split: if_splits)

lemma column_absent: "c \<notin> set names \<Longrightarrow> column names cells c = None"
  by (auto simp: column_def dest: map_of_SomeD set_zip_leftD split: option.splits)

lemma survivors_cases:
  "survivors lib fr =
     (if empty_columns fr \<noteq> [] then filter (\<lambda>r. \<not> all_null r) (coerced lib fr) else coerced lib fr)"
  by (auto simp: survivors_def Let_def kept_columns_Nil)

lemma numbers_coerced: "r \<in> set (coerced lib fr) \<Longrightarrow> map fst (numbers r) = empty_columns fr"
  by (auto simp: coerced_def coerce_row_def comp_def)

lemma survivors_subset: "set (survivors lib fr) \<subseteq> set (coerced lib fr)"
  by (auto simp: survivors_cases)

lemma data_cell_absent:
  assumes "r \<in> set (coerced lib fr)" "''data'' \<notin> set (renamed_labels fr)"
  shows "date_time_string r = None"
  using assms by (auto simp: coerced_def coerce_row_def date_time_string_def column_absent)

lemma not_all_null: "\<not> all_null r \<longleftrightarrow> list_ex (\<lambda>(c, v). v \<noteq> NaN) (numbers r)"
  by (auto simp: all_null_def list_all_iff list_ex_iff)

lemma zip_no_numbers:
  "length d = length ts \<Longrightarrow> \<forall>r\<in>set d. numbers r = [] \<Longrightarrow>
     map (\<lambda>(r, t). \<lparr>measurements = numbers r, data_hora = t\<rparr>) (zip d ts) =
     map (\<lambda>t. \<lparr>measurements = [], data_hora = t\<rparr>) ts"
  by (induction d ts rule: list_induct2) auto


subsection \<open>The example frames\<close>

lemma renamed_each:
  "columns_renamer ''Data'' = ''data''"
  "columns_renamer ''Hora UTC'' = ''hora''"
  "columns_renamer ''PRECIPITACAO TOTAL, HORARIO (mm)'' = ''precipitacao''"
  "columns_renamer ''PRESSAO ATMOSFERICA AO NIVEL DA ESTACAO, HORARIA (mB)'' = ''pressao_atmosferica''"
  "columns_renamer ''PRESSAO ATMOSFERICA MAX.NA HORA ANT. (AUT) (mB)'' = ''pressao_atmosferica_maxima''"
  "columns_renamer ''PRESSAO ATMOSFERICA MIN. NA HORA ANT. (AUT) (mB)'' = ''pressao_atmosferica_minima''"
  "columns_renamer ''RADIACAO GLOBAL (Kj/m2)'' = ''radiacao''"
  "columns_renamer ''TEMPERATURA DO AR - BULBO SECO, HORARIA (C)'' = ''temperatura_ar''"
  "columns_renamer ''TEMPERATURA DO PONTO DE ORVALHO (C)'' = ''temperatura_orvalho''"
  "columns_renamer ''TEMPERATURA MAXIMA NA HORA ANT. (AUT) (C)'' = ''temperatura_maxima''"
  "columns_renamer ''TEMPERATURA MINIMA NA HORA ANT. (AUT) (C)'' = ''temperatura_minima''"
  "columns_renamer ''TEMPERATURA ORVALHO MAX. NA HORA ANT. (AUT) (C)'' = ''temperatura_orvalho_maxima''"
  "columns_renamer ''TEMPERATURA ORVALHO MIN. NA HORA ANT. (AUT) (C)'' = ''temperatura_orvalho_minima''"
  "columns_renamer ''UMIDADE REL. MAX. NA HORA ANT. (AUT) (%)'' = ''umidade_relativa_maxima''"
  "columns_renamer ''UMIDADE REL. MIN. NA HORA ANT. (AUT) (%)'' = ''umidade_relativa_minima''"
  "columns_renamer ''UMIDADE RELATIVA DO AR, HORARIA (%)'' = ''umidade_relativa''"
  "columns_renamer ''VENTO, DIRECAO HORARIA (gr)'' = ''vento_direcao''"
  "columns_renamer ''VENTO, RAJADA MAXIMA (m/s)'' = ''vento_rajada''"
  "columns_renamer ''VENTO, VELOCIDADE HORARIA (m/s)'' = ''vento_velocidade''"
  by (simp add: rename_eval lower_eval del: re_match.simps)+

lemma renamed_inmet_labels: "map columns_renamer inmet_labels = ''data'' # ''hora'' # numeric_cols"
  unfolding inmet_labels_def numeric_cols_def
  by (simp only: list.map renamed_each)

lemma empty_columns_inmet:
  "labels fr = inmet_labels \<Longrightarrow> empty_columns fr = numeric_cols"
  unfolding empty_columns_def renamed_labels_def
  by (simp add: renamed_inmet_labels)

lemma kept_columns_inmet:
  "labels fr = inmet_labels \<Longrightarrow> kept_columns fr = cols_to_keep"
  unfolding kept_columns_def renamed_labels_def cols_to_keep_def
  by (simp add: renamed_inmet_labels)

lemma distinct_cols: "distinct (''data'' # ''hora'' # numeric_cols)"
  unfolding numeric_cols_def by simp

lemma distinct_count_list: "distinct xs \<Longrightarrow> count_list xs x = (if x \<in> set xs then 1 else 0)"
  by (induction xs) auto

lemma count_inmet:
  assumes "labels fr = inmet_labels"
  shows "\<not> list_ex (\<lambda>c. 1 < count_list (renamed_labels fr) c) (empty_columns fr)"
    and "count_list (renamed_labels fr) ''data'' = 1"
    and "count_list (renamed_labels fr) ''hora'' = 1"
proof -
  have d: "distinct (renamed_labels fr)"
    using assms distinct_cols by (simp add: renamed_labels_def renamed_inmet_labels)
  then show "\<not> list_ex (\<lambda>c. 1 < count_list (renamed_labels fr) c) (empty_columns fr)"
    by (simp add: list_ex_iff distinct_count_list)
  show "count_list (renamed_labels fr) ''data'' = 1" "count_list (renamed_labels fr) ''hora'' = 1"
    using d assms by (simp_all add: distinct_count_list renamed_labels_def renamed_inmet_labels)
qed

lemma coerce_inmet_line:
  "coerce_row lib (''data'' # ''hora'' # numeric_cols) numeric_cols (inmet_line d h t u) =
     \<lparr>numbers = measured (coerce lib t) (coerce lib u), data_cell = d, hora_cell = h\<rparr>"
  unfolding coerce_row_def measured_def numeric_cols_def inmet_line_def column_def
  by (simp add: coerce_def)


lemma all_null_measured:
  "all_null \<lparr>numbers = measured a b, data_cell = d, hora_cell = h\<rparr> \<longleftrightarrow> a = NaN \<and> b = NaN"
  unfolding all_null_def measured_def numeric_cols_def by simp

lemma survivors_inmet:
  assumes "labels fr = inmet_labels"
  shows "survivors lib fr =
      filter (\<lambda>r. \<not> all_null r)
        (map (coerce_row lib (''data'' # ''hora'' # numeric_cols) numeric_cols) (body fr))"
proof -
  have names: "renamed_labels fr = ''data'' # ''hora'' # numeric_cols"
    using assms by (simp add: renamed_labels_def renamed_inmet_labels)
  have cols: "empty_columns fr = numeric_cols" "kept_columns fr = cols_to_keep"
    using assms by (simp_all add: empty_columns_inmet kept_columns_inmet)
  have nonempty: "numeric_cols \<noteq> []" "cols_to_keep \<noteq> []"
    by (simp_all add: numeric_cols_def cols_to_keep_def)
  show ?thesis
    unfolding survivors_def coerced_def Let_def cols names using nonempty by auto
qed

lemma read_data_inmet:
  assumes "labels fr = inmet_labels"
  shows "read_data lib (Inr fr) =
     (let d = filter (\<lambda>r. \<not> all_null r)
                (map (coerce_row lib (''data'' # ''hora'' # numeric_cols) numeric_cols) (body fr))
      in if d = [] then Inr []
         else and_then (to_datetime lib (map date_time_string d)) (\<lambda>ts.
                Inr (map (\<lambda>(r, t). \<lparr>measurements = numbers r, data_hora = t\<rparr>) (zip d ts))))"
proof -
  have names: "renamed_labels fr = ''data'' # ''hora'' # numeric_cols"
    using assms by (simp add: renamed_labels_def renamed_inmet_labels)
  have cols: "empty_columns fr = numeric_cols" "kept_columns fr = cols_to_keep"
    using assms by (simp_all add: empty_columns_inmet kept_columns_inmet)
  have nonempty: "numeric_cols \<noteq> []" "cols_to_keep \<noteq> []"
    by (simp_all add: numeric_cols_def cols_to_keep_def)
  have fdh: "fix_data_hora lib (renamed_labels fr) d =
      and_then (to_datetime lib (map date_time_string d)) (\<lambda>ts.
        Inr (map (\<lambda>(r, t). \<lparr>measurements = numbers r, data_hora = t\<rparr>) (zip d ts)))" for d
  proof -
    have "''data'' \<in> set (renamed_labels fr)" "''hora'' \<in> set (renamed_labels fr)"
      by (simp_all add: names)
    then show ?thesis
      using count_inmet(2,3) [OF assms] by (simp add: fix_data_hora_def)
  qed
  show ?thesis
    using count_inmet(1) [OF assms] nonempty
    by (simp add: read_data_def and_then_def [of "Inr fr"] survivors_inmet [OF assms] fdh cols Let_def)
qed

lemma date_time_string_Some:
  "date_time_string \<lparr>numbers = n, data_cell = Some d, hora_cell = Some h\<rparr> =
     Some (convert_date d @ '' '' @ fix_hour_string h)"
  by (simp add: date_time_string_def str_cell_def)

lemmas frame_eval =
  coerce_inmet_line all_null_measured coerce_examples date_time_string_Some hour_examples
  date_examples timestamp_examples and_then_def reference_selectors

lemma january_decoded: "read_data reference_library (Inr january_frame) = Inr january_rows"
  by (simp add: read_data_inmet january_frame_def january_rows_def frame_eval)

lemma bad_date_raises: "read_data reference_library (Inr bad_date_frame) = Inl ValueError"
  by (simp add: read_data_inmet bad_date_frame_def frame_eval)

lemma sparse_decoded:
  "read_data reference_library (Inr sparse_frame) =
     Inr [\<lparr>measurements = measured NaN (Num 65), data_hora = Some (january 3 5)\<rparr>]"
  by (simp add: read_data_inmet sparse_frame_def frame_eval)


lemma renamed_unnamed_each:
  "columns_renamer ''Unnamed: 2'' = ''unnamed: 2''" "columns_renamer ''Unnamed: 3'' = ''unnamed: 3''"
  "columns_renamer ''Unnamed: 4'' = ''unnamed: 4''" "columns_renamer ''Unnamed: 5'' = ''unnamed: 5''"
  "columns_renamer ''Unnamed: 6'' = ''unnamed: 6''" "columns_renamer ''Unnamed: 7'' = ''unnamed: 7''"
  "columns_renamer ''Unnamed: 8'' = ''unnamed: 8''" "columns_renamer ''Unnamed: 9'' = ''unnamed: 9''"
  "columns_renamer ''Unnamed: 10'' = ''unnamed: 10''" "columns_renamer ''Unnamed: 11'' = ''unnamed: 11''"
  "columns_renamer ''Unnamed: 12'' = ''unnamed: 12''" "columns_renamer ''Unnamed: 13'' = ''unnamed: 13''"
  "columns_renamer ''Unnamed: 14'' = ''unnamed: 14''" "columns_renamer ''Unnamed: 15'' = ''unnamed: 15''"
  "columns_renamer ''Unnamed: 16'' = ''unnamed: 16''" "columns_renamer ''Unnamed: 17'' = ''unnamed: 17''"
  "columns_renamer ''Unnamed: 18'' = ''unnamed: 18''"
  by (simp add: rename_eval lower_eval del: re_match.simps)+

lemma renamed_unnamed_labels:
  "renamed_labels (unnamed_frame h) =
     [''data'', ''hora'', ''unnamed: 2'', ''unnamed: 3'', ''unnamed: 4'', ''unnamed: 5'',
      ''unnamed: 6'', ''unnamed: 7'', ''unnamed: 8'', ''unnamed: 9'', ''unnamed: 10'',
      ''unnamed: 11'', ''unnamed: 12'', ''unnamed: 13'', ''unnamed: 14'', ''unnamed: 15'',
      ''unnamed: 16'', ''unnamed: 17'', ''unnamed: 18'']"
  unfolding renamed_labels_def unnamed_frame_def unnamed_labels_def
  by (simp only: frame.simps list.map renamed_each renamed_unnamed_each)

lemma unnamed_columns:
  "empty_columns (unnamed_frame h) = []"
  "kept_columns (unnamed_frame h) = [''data'', ''hora'']"
  "count_list (renamed_labels (unnamed_frame h)) ''data'' = 1"
  "count_list (renamed_labels (unnamed_frame h)) ''hora'' = 1"
  unfolding empty_columns_def kept_columns_def cols_to_keep_def renamed_unnamed_labels numeric_cols_def
  by simp_all

lemma unnamed_coerced:
  "coerced lib (unnamed_frame h) =
     [\<lparr>numbers = [], data_cell = Some ''2020/01/01'', hora_cell = Some h\<rparr>]"
  unfolding coerced_def unnamed_columns renamed_unnamed_labels
  by (simp add: unnamed_frame_def inmet_line_def coerce_row_def column_def)

lemma unnamed_body: "body (unnamed_frame h) \<noteq> []"
  by (simp add: unnamed_frame_def)

text \<open>The row of a file without numeric columns is emitted when its timestamp parses.\<close>

lemma read_data_unnamed:
  "read_data lib (Inr (unnamed_frame h)) =
     and_then (to_datetime lib [Some (''2020-01-01 '' @ fix_hour_string h)]) (\<lambda>ts.
       Inr (map (\<lambda>t. \<lparr>measurements = [], data_hora = t\<rparr>) ts))"
proof -
  let ?r = "\<lparr>numbers = [], data_cell = Some ''2020/01/01'', hora_cell = Some h\<rparr>"
  have surv: "survivors lib (unnamed_frame h) = [?r]"
    by (simp add: survivors_def unnamed_coerced unnamed_columns)
  have mem: "''data'' \<in> set (renamed_labels (unnamed_frame h))"
    "''hora'' \<in> set (renamed_labels (unnamed_frame h))"
    by (simp_all add: renamed_unnamed_labels)
  have dts: "date_time_string ?r = Some (''2020-01-01 '' @ fix_hour_string h)"
    by (simp add: date_time_string_Some date_examples)
  have fdh: "fix_data_hora lib (renamed_labels (unnamed_frame h)) [?r] =
      and_then (to_datetime lib [Some (''2020-01-01 '' @ fix_hour_string h)]) (\<lambda>ts.
        Inr (map (\<lambda>(r, t). \<lparr>measurements = numbers r, data_hora = t\<rparr>) (zip [?r] ts)))"
    using mem unnamed_columns(3,4) [of h] dts by (simp add: fix_data_hora_def)
  have single: "to_datetime lib [Some x] =
      (case pd_to_datetime lib x of None \<Rightarrow> Inl ValueError | Some t \<Rightarrow> Inr [Some t])" for x
    by (simp add: and_then_def split: option.splits)
  have "fix_data_hora lib (renamed_labels (unnamed_frame h)) [?r] =
      and_then (to_datetime lib [Some (''2020-01-01 '' @ fix_hour_string h)]) (\<lambda>ts.
        Inr (map (\<lambda>t. \<lparr>measurements = [], data_hora = t\<rparr>) ts))"
    unfolding fdh single
    by (simp add: and_then_def split: option.splits)
  then show ?thesis
    by (simp add: read_data_def and_then_def [of "Inr (unnamed_frame h)"] surv unnamed_columns)
qed

lemma unnamed_decoded:
  "read_data reference_library (Inr (unnamed_frame ''0000 UTC'')) =
     Inr [\<lparr>measurements = [], data_hora = Some (january 1 0)\<rparr>]"
  by (simp add: read_data_unnamed frame_eval)

subsection \<open>The filter on rows without a number\<close>

lemma read_data_rows:
  assumes "read_data lib (Inr fr) = Inr out" "empty_columns fr \<noteq> []"
  shows "map measurements out = map numbers (filter (\<lambda>r. \<not> all_null r) (coerced lib fr))"
proof -
  have "map measurements out = map numbers (survivors lib fr)"
    using assms read_data_Inr [of lib fr out] fix_data_hora_Inr(1) by (auto simp: kept_columns_Nil)
  then show ?thesis
    using assms by (simp add: survivors_cases)
qed

text \<open>
  Claim C10.  The filter on all-undefined rows looks only at the numeric columns that the
  file has after renaming (\<open>empty_columns\<close>).  When the file has at least one of them, the
  rows that \<^verbatim>\<open>read_data\<close> returns are, in order, the rows in which at least one of these
  columns is defined.  When the file has none of the seventeen columns, the filter is
  skipped: no row is removed, every returned row has no defined numeric field, and such
  rows are returned whenever the timestamps parse.  A returned row carries exactly the
  columns in \<open>empty_columns\<close>.
\<close>

theorem read_data_filter_present_columns:
  "(read_data lib (Inr fr) = Inr out \<and> empty_columns fr \<noteq> [] \<longrightarrow>
      map measurements out =
        map numbers (filter (\<lambda>r. list_ex (\<lambda>(c, v). v \<noteq> NaN) (numbers r)) (coerced lib fr)))
   \<and> (read_data lib (Inr fr) = Inr out \<and> empty_columns fr = [] \<longrightarrow>
        list_all (\<lambda>r. measurements r = []) out \<and> (out = [] \<or> length out = length (body fr)))
   \<and> (read_data lib (Inr fr) = Inr out \<longrightarrow>
        list_all (\<lambda>r. map fst (measurements r) = empty_columns fr) out)
   \<and> (empty_columns fr = [] \<and> count_list (renamed_labels fr) ''data'' = 1
        \<and> count_list (renamed_labels fr) ''hora'' = 1 \<and> body fr \<noteq> []
        \<and> to_datetime lib (map date_time_string (coerced lib fr)) = Inr ts \<longrightarrow>
        read_data lib (Inr fr) = Inr (map (\<lambda>t. \<lparr>measurements = [], data_hora = t\<rparr>) ts))"
proof -
  have filtered: "read_data lib (Inr fr) = Inr out \<and> empty_columns fr \<noteq> [] \<longrightarrow>
      map measurements out =
        map numbers (filter (\<lambda>r. list_ex (\<lambda>(c, v). v \<noteq> NaN) (numbers r)) (coerced lib fr))"
  proof
  assume a: "read_data lib (Inr fr) = Inr out \<and> empty_columns fr \<noteq> []"
  then show "map measurements out =
        map numbers (filter (\<lambda>r. list_ex (\<lambda>(c, v). v \<noteq> NaN) (numbers r)) (coerced lib fr))"
    using read_data_rows [of lib fr out] by (simp add: not_all_null)
qed
  have unfiltered: "read_data lib (Inr fr) = Inr out \<and> empty_columns fr = [] \<longrightarrow>
        list_all (\<lambda>r. measurements r = []) out \<and> (out = [] \<or> length out = length (body fr))"
  proof
  assume a: "read_data lib (Inr fr) = Inr out \<and> empty_columns fr = []"
  then have m: "out = [] \<or> map measurements out = map numbers (coerced lib fr)"
    using read_data_Inr [of lib fr out] fix_data_hora_Inr(1) [of lib _ "survivors lib fr" out]
    by (auto simp: survivors_cases)
  have n: "\<forall>r\<in>set (coerced lib fr). numbers r = []"
    using a numbers_coerced by fastforce
  show "list_all (\<lambda>r. measurements r = []) out \<and> (out = [] \<or> length out = length (body fr))"
  proof (cases "out = []")
    case True
    then show ?thesis by simp
  next
    case False
    then have eq: "map measurements out = map numbers (coerced lib fr)"
      using m by simp
    then have "length out = length (coerced lib fr)"
      using map_eq_imp_length_eq by blast
    moreover have "\<forall>r\<in>set out. measurements r = []"
    proof
      fix r assume "r \<in> set out"
      then have "measurements r \<in> set (map numbers (coerced lib fr))"
        using eq by (metis image_eqI list.set_map)
      then show "measurements r = []"
        using n by auto
    qed
    ultimately show ?thesis
      by (simp add: list_all_iff coerced_def)
  qed
qed
  have columns: "read_data lib (Inr fr) = Inr out \<longrightarrow>
        list_all (\<lambda>r. map fst (measurements r) = empty_columns fr) out"
  proof
  assume a: "read_data lib (Inr fr) = Inr out"
  have "\<forall>r\<in>set out. map fst (measurements r) = empty_columns fr"
  proof
    fix r assume r: "r \<in> set out"
    then have "out \<noteq> []" by auto
    then have "map measurements out = map numbers (survivors lib fr)"
      using a read_data_Inr [of lib fr out] fix_data_hora_Inr(1) by auto
    then have "measurements r \<in> set (map numbers (survivors lib fr))"
      using r by (metis image_eqI list.set_map)
    then show "map fst (measurements r) = empty_columns fr"
      using numbers_coerced survivors_subset by fastforce
  qed
  then show "list_all (\<lambda>r. map fst (measurements r) = empty_columns fr) out"
    by (simp add: list_all_iff)
qed
  have emitted: "empty_columns fr = [] \<and> count_list (renamed_labels fr) ''data'' = 1
        \<and> count_list (renamed_labels fr) ''hora'' = 1 \<and> body fr \<noteq> []
        \<and> to_datetime lib (map date_time_string (coerced lib fr)) = Inr ts \<longrightarrow>
        read_data lib (Inr fr) = Inr (map (\<lambda>t. \<lparr>measurements = [], data_hora = t\<rparr>) ts)"
  proof
  assume a: "empty_columns fr = [] \<and> count_list (renamed_labels fr) ''data'' = 1
        \<and> count_list (renamed_labels fr) ''hora'' = 1 \<and> body fr \<noteq> []
        \<and> to_datetime lib (map date_time_string (coerced lib fr)) = Inr ts"
  then have in_names: "''data'' \<in> set (renamed_labels fr)" "''hora'' \<in> set (renamed_labels fr)"
    by (metis count_list_0_iff zero_neq_one)+
  then have kept: "kept_columns fr \<noteq> []"
    by (simp add: kept_columns_Nil)
  have surv: "survivors lib fr = coerced lib fr" "coerced lib fr \<noteq> []"
    using a by (simp_all add: survivors_cases coerced_def)
  have len: "length (coerced lib fr) = length ts"
    using a by (simp add: to_datetime_Inr)
  have n: "\<forall>r\<in>set (coerced lib fr). numbers r = []"
    using a numbers_coerced by fastforce
  have "map (\<lambda>(r, t). \<lparr>measurements = numbers r, data_hora = t\<rparr>) (zip (coerced lib fr) ts)
      = map (\<lambda>t. \<lparr>measurements = [], data_hora = t\<rparr>) ts"
    using len n by (simp add: zip_no_numbers)
  then show "read_data lib (Inr fr) = Inr (map (\<lambda>t. \<lparr>measurements = [], data_hora = t\<rparr>) ts)"
    using a in_names kept surv
    by (simp add: read_data_def and_then_def Let_def fix_data_hora_def)
qed
  show ?thesis
    using filtered unfiltered columns emitted by blast
qed



lemma sparse_columns: "empty_columns sparse_frame \<noteq> []"
  by (simp add: empty_columns_inmet sparse_frame_def numeric_cols_def)

lemma unnamed_timestamps:
  "to_datetime reference_library
     (map date_time_string (coerced reference_library (unnamed_frame ''0100 UTC''))) =
   Inr [Some (january 1 1)]"
  by (simp add: unnamed_coerced frame_eval)

theorem read_data_filter_present_columns_witness:
  "read_data reference_library (Inr sparse_frame) =
     Inr [\<lparr>measurements = measured NaN (Num 65), data_hora = Some (january 3 5)\<rparr>]
   \<and> empty_columns sparse_frame \<noteq> []
   \<and> map measurements [\<lparr>measurements = measured NaN (Num 65), data_hora = Some (january 3 5)\<rparr>] =
       map numbers (filter (\<lambda>r. list_ex (\<lambda>(c, v). v \<noteq> NaN) (numbers r))
         (coerced reference_library sparse_frame))
   \<and> empty_columns (unnamed_frame ''0100 UTC'') = []
   \<and> count_list (renamed_labels (unnamed_frame ''0100 UTC'')) ''data'' = 1
   \<and> count_list (renamed_labels (unnamed_frame ''0100 UTC'')) ''hora'' = 1
   \<and> body (unnamed_frame ''0100 UTC'') \<noteq> []
   \<and> read_data reference_library (Inr (unnamed_frame ''0100 UTC'')) =
       Inr [\<lparr>measurements = [], data_hora = Some (january 1 1)\<rparr>]
   \<and> length [\<lparr>measurements = [], data_hora = Some (january 1 1)\<rparr>] =
       length (body (unnamed_frame ''0100 UTC''))"
proof -
  let ?out = "[\<lparr>measurements = measured NaN (Num 65), data_hora = Some (january 3 5)\<rparr>]"
  let ?fr = "unnamed_frame ''0100 UTC''"
  let ?ts = "[Some (january 1 1)]"
  have emitted: "read_data reference_library (Inr ?fr) =
      Inr (map (\<lambda>t. \<lparr>measurements = [], data_hora = t\<rparr>) ?ts)"
    using read_data_filter_present_columns [of reference_library ?fr _ ?ts]
      unnamed_columns [of "''0100 UTC''"] unnamed_body unnamed_timestamps
    by blast
  then have decoded: "read_data reference_library (Inr ?fr) =
      Inr [\<lparr>measurements = [], data_hora = Some (january 1 1)\<rparr>]"
    by simp
  have "length [\<lparr>measurements = [], data_hora = Some (january 1 1)\<rparr>] = length (body ?fr)"
    using read_data_filter_present_columns
        [of reference_library ?fr "[\<lparr>measurements = [], data_hora = Some (january 1 1)\<rparr>]"]
      decoded unnamed_columns(1) [of "''0100 UTC''"]
    by blast
  then show ?thesis
    using read_data_filter_present_columns [of reference_library sparse_frame ?out]
      sparse_decoded sparse_columns decoded unnamed_columns [of "''0100 UTC''"] unnamed_body
    by blast
qed

lemma empty_columns_numeric: "set (empty_columns fr) \<subseteq> set numeric_cols"
  by (auto simp: empty_columns_def)

text \<open>
  Claim C5, as amended.  When the file has at least one of the seventeen numeric columns,
  \<^verbatim>\<open>read_data\<close> never returns a row in which all the numeric columns of the file are
  undefined: every returned row has a defined value in one of them.
\<close>

theorem read_data_never_all_undefined:
  "read_data lib (Inr fr) = Inr out \<and> empty_columns fr \<noteq> [] \<longrightarrow>
     list_all (\<lambda>r. list_ex (\<lambda>(c, v). c \<in> set numeric_cols \<and> v \<noteq> NaN) (measurements r)) out"
proof
  assume a: "read_data lib (Inr fr) = Inr out \<and> empty_columns fr \<noteq> []"
  then have rows: "map measurements out =
      map numbers (filter (\<lambda>r. \<not> all_null r) (coerced lib fr))"
    using read_data_rows by blast
  have "\<forall>r\<in>set out. list_ex (\<lambda>(c, v). c \<in> set numeric_cols \<and> v \<noteq> NaN) (measurements r)"
  proof
    fix r assume "r \<in> set out"
    then have "measurements r \<in> set (map numbers (filter (\<lambda>r. \<not> all_null r) (coerced lib fr)))"
      using rows by (metis image_eqI list.set_map)
    then obtain r' where r': "r' \<in> set (coerced lib fr)" "\<not> all_null r'" "measurements r = numbers r'"
      by auto
    have "fst ` set (numbers r') \<subseteq> set numeric_cols"
      using numbers_coerced [OF r'(1)] empty_columns_numeric [of fr]
      by (metis list.set_map)
    then show "list_ex (\<lambda>(c, v). c \<in> set numeric_cols \<and> v \<noteq> NaN) (measurements r)"
      using r'(2,3) by (fastforce simp: not_all_null list_ex_iff)
  qed
  then show "list_all (\<lambda>r. list_ex (\<lambda>(c, v). c \<in> set numeric_cols \<and> v \<noteq> NaN) (measurements r)) out"
    by (simp add: list_all_iff)
qed

theorem read_data_never_all_undefined_witness:
  "read_data reference_library (Inr sparse_frame) =
     Inr [\<lparr>measurements = measured NaN (Num 65), data_hora = Some (january 3 5)\<rparr>]
   \<and> empty_columns sparse_frame \<noteq> []
   \<and> list_ex (\<lambda>(c, v). c \<in> set numeric_cols \<and> v \<noteq> NaN) (measured NaN (Num 65))"
  using read_data_never_all_undefined
      [of reference_library sparse_frame
        "[\<lparr>measurements = measured NaN (Num 65), data_hora = Some (january 3 5)\<rparr>]"]
    sparse_decoded sparse_columns
  by simp

text \<open>
  The claim as it was stated fails on a file that has the columns \<open>data\<close> and \<open>hora\<close> and none
  of the seventeen numeric columns: its row is returned, with every numeric field undefined.
\<close>

theorem read_data_all_undefined_counterexample:
  "read_data reference_library (Inr (unnamed_frame ''0000 UTC'')) =
     Inr [\<lparr>measurements = [], data_hora = Some (january 1 0)\<rparr>]
   \<and> list_all (\<lambda>c. cell \<lparr>measurements = [], data_hora = Some (january 1 0)\<rparr> c = NaN) numeric_cols"
  using unnamed_decoded by (simp add: cell_def list_all_iff)


subsection \<open>Timestamps that do not parse\<close>

lemma to_datetime_unparsed:
  assumes "Some s \<in> set xs" "pd_to_datetime lib s = None"
  shows "to_datetime lib xs = Inl ValueError"
proof (cases "to_datetime lib xs")
  case (Inl e)
  then show ?thesis using to_datetime_Inl by blast
next
  case (Inr ts)
  then show ?thesis using assms by (auto simp: to_datetime_Inr)
qed

lemma count_list_one_in: "count_list xs x = 1 \<Longrightarrow> x \<in> set xs"
  by (metis count_list_0_iff zero_neq_one)

lemma process_files_read_data_raises:
  assumes "read_metadata lib (metadata_lines zf) = (printed, Some m)"
    and "read_data lib (csv_table zf) = Inl e"
  shows "process_files lib (zf # files) (data, out) =
     process_files lib files (data, out @ printed @ [Erro_ao_processar (filename zf) e])"
  using assms by simp

text \<open>
  Claim C4, as amended.  A row whose date and time do not parse is not dropped:
  \<^verbatim>\<open>pd.to_datetime\<close> raises for the whole column, so \<^verbatim>\<open>read_data\<close> raises and returns no
  row of that file (with well-formed columns the error is the \<^verbatim>\<open>ValueError\<close> of the
  parser).  When \<^verbatim>\<open>read_data\<close> returns rows, they are all the rows that passed the filter
  on undefined rows, each with the timestamp parsed from its date and time, or without
  timestamp when its date cell is missing.  The failure is fatal to the file and not to
  the run: \<^verbatim>\<open>read_zipfile\<close> prints the error and goes on with the next file.
\<close>

theorem read_data_unparsed_timestamp_fails_file:
  "(r \<in> set (survivors lib fr) \<and> date_time_string r = Some s \<and> pd_to_datetime lib s = None \<longrightarrow>
      (\<exists>e. read_data lib (Inr fr) = Inl e))
   \<and> (r \<in> set (survivors lib fr) \<and> date_time_string r = Some s \<and> pd_to_datetime lib s = None
       \<and> \<not> list_ex (\<lambda>c. 1 < count_list (renamed_labels fr) c) (empty_columns fr)
       \<and> count_list (renamed_labels fr) ''data'' = 1 \<and> count_list (renamed_labels fr) ''hora'' = 1 \<longrightarrow>
      read_data lib (Inr fr) = Inl ValueError)
   \<and> (read_data lib (Inr fr) = Inr out \<and> out \<noteq> [] \<longrightarrow>
      map data_hora out =
        map (\<lambda>r. case date_time_string r of None \<Rightarrow> None | Some s \<Rightarrow> pd_to_datetime lib s)
          (survivors lib fr))
   \<and> (read_metadata lib (metadata_lines zf) = (printed, Some m)
       \<and> read_data lib (csv_table zf) = Inl e \<longrightarrow>
      process_files lib (zf # files) (data, out') =
        process_files lib files (data, out' @ printed @ [Erro_ao_processar (filename zf) e]))"
proof -
  have raises: "r \<in> set (survivors lib fr) \<and> date_time_string r = Some s \<and> pd_to_datetime lib s = None \<longrightarrow>
      (\<exists>e. read_data lib (Inr fr) = Inl e)"
  proof
    assume a: "r \<in> set (survivors lib fr) \<and> date_time_string r = Some s \<and> pd_to_datetime lib s = None"
    show "\<exists>e. read_data lib (Inr fr) = Inl e"
    proof (cases "read_data lib (Inr fr)")
      case (Inl e)
      then show ?thesis by blast
    next
      case (Inr rows)
      have "r \<in> set (coerced lib fr)"
        using a survivors_subset by blast
      then have "''data'' \<in> set (renamed_labels fr)"
        using a data_cell_absent by fastforce
      then have "kept_columns fr \<noteq> []"
        by (simp add: kept_columns_Nil)
      moreover have "survivors lib fr \<noteq> []"
        using a by auto
      ultimately have "fix_data_hora lib (renamed_labels fr) (survivors lib fr) = Inr rows"
        using read_data_Inr [OF Inr] by blast
      then have False
        using fix_data_hora_Inr(3) a by blast
      then show ?thesis ..
    qed
  qed
  have value_error: "r \<in> set (survivors lib fr) \<and> date_time_string r = Some s \<and> pd_to_datetime lib s = None
       \<and> \<not> list_ex (\<lambda>c. 1 < count_list (renamed_labels fr) c) (empty_columns fr)
       \<and> count_list (renamed_labels fr) ''data'' = 1 \<and> count_list (renamed_labels fr) ''hora'' = 1 \<longrightarrow>
      read_data lib (Inr fr) = Inl ValueError"
  proof
    assume a: "r \<in> set (survivors lib fr) \<and> date_time_string r = Some s \<and> pd_to_datetime lib s = None
       \<and> \<not> list_ex (\<lambda>c. 1 < count_list (renamed_labels fr) c) (empty_columns fr)
       \<and> count_list (renamed_labels fr) ''data'' = 1 \<and> count_list (renamed_labels fr) ''hora'' = 1"
    then have mem: "''data'' \<in> set (renamed_labels fr)" "''hora'' \<in> set (renamed_labels fr)"
      by (simp_all add: count_list_one_in)
    then have kept: "kept_columns fr \<noteq> []"
      by (simp add: kept_columns_Nil)
    have nonempty: "survivors lib fr \<noteq> []"
      using a by auto
    have "Some s \<in> set (map date_time_string (survivors lib fr))"
      using a by force
    then have "to_datetime lib (map date_time_string (survivors lib fr)) = Inl ValueError"
      using a to_datetime_unparsed by blast
    then have "fix_data_hora lib (renamed_labels fr) (survivors lib fr) = Inl ValueError"
      using a mem by (simp add: fix_data_hora_def and_then_def)
    then show "read_data lib (Inr fr) = Inl ValueError"
      using a kept nonempty by (simp add: read_data_def and_then_def Let_def)
  qed
  have kept_rows: "read_data lib (Inr fr) = Inr out \<and> out \<noteq> [] \<longrightarrow>
      map data_hora out =
        map (\<lambda>r. case date_time_string r of None \<Rightarrow> None | Some s \<Rightarrow> pd_to_datetime lib s)
          (survivors lib fr)"
    using read_data_Inr [of lib fr out] fix_data_hora_Inr(2) by blast
  have next_file: "read_metadata lib (metadata_lines zf) = (printed, Some m)
       \<and> read_data lib (csv_table zf) = Inl e \<longrightarrow>
      process_files lib (zf # files) (data, out') =
        process_files lib files (data, out' @ printed @ [Erro_ao_processar (filename zf) e])"
    using process_files_read_data_raises by blast
  show ?thesis
    using raises value_error kept_rows next_file by blast
qed

lemma bad_date_survivors:
  "survivors reference_library bad_date_frame =
     [\<lparr>numbers = measured (Num 20) (Num 80), data_cell = Some ''2020/01/28'', hora_cell = Some ''0000 UTC''\<rparr>,
      \<lparr>numbers = measured (Num 22) (Num 75), data_cell = Some ''2020/02/30'', hora_cell = Some ''0100 UTC''\<rparr>]"
  by (simp add: survivors_inmet bad_date_frame_def frame_eval)

lemma january_survivors:
  "map (\<lambda>r. case date_time_string r of None \<Rightarrow> None | Some s \<Rightarrow> pd_to_datetime reference_library s)
     (survivors reference_library january_frame) =
   [Some (january 1 0), Some (january 1 1), Some (january 2 2)]"
  by (simp add: survivors_inmet january_frame_def frame_eval)

lemma example_header_read:
  "read_metadata reference_library (header_example ''2000-05-13'' @ rest) =
     ([], Some (station_example (Parsed may_13_2000)))"
  by (simp add: read_metadata_example parse_fundacao_def fundacao_pattern_examples
      reference_selectors fixed_date_examples)

theorem read_data_unparsed_timestamp_fails_file_witness:
  "\<lparr>numbers = measured (Num 22) (Num 75), data_cell = Some ''2020/02/30'', hora_cell = Some ''0100 UTC''\<rparr>
     \<in> set (survivors reference_library bad_date_frame)
   \<and> date_time_string
       \<lparr>numbers = measured (Num 22) (Num 75), data_cell = Some ''2020/02/30'', hora_cell = Some ''0100 UTC''\<rparr>
     = Some ''2020-02-30 01:00''
   \<and> pd_to_datetime reference_library ''2020-02-30 01:00'' = None
   \<and> read_data reference_library (Inr bad_date_frame) = Inl ValueError
   \<and> read_data reference_library (Inr january_frame) = Inr january_rows
   \<and> map data_hora january_rows = [Some (january 1 0), Some (january 1 1), Some (january 2 2)]
   \<and> read_metadata reference_library (metadata_lines bad_date_entry) =
       ([], Some (station_example (Parsed may_13_2000)))
   \<and> process_files reference_library [bad_date_entry] ([], []) =
       ([], [Erro_ao_processar (filename bad_date_entry) ValueError])"
proof -
  let ?r = "\<lparr>numbers = measured (Num 22) (Num 75), data_cell = Some ''2020/02/30'',
    hora_cell = Some ''0100 UTC''\<rparr>"
  have labels: "labels bad_date_frame = inmet_labels"
    by (simp add: bad_date_frame_def)
  have r: "?r \<in> set (survivors reference_library bad_date_frame)"
    by (simp add: bad_date_survivors)
  have s: "date_time_string ?r = Some ''2020-02-30 01:00''"
    by (simp add: frame_eval)
  have unparsed: "pd_to_datetime reference_library ''2020-02-30 01:00'' = None"
    by (simp add: frame_eval)
  have raised: "read_data reference_library (Inr bad_date_frame) = Inl ValueError"
    using read_data_unparsed_timestamp_fails_file
        [of ?r reference_library bad_date_frame "''2020-02-30 01:00''"]
      r s unparsed count_inmet [OF labels]
    by blast
  have rows: "january_rows \<noteq> []"
    by (simp add: january_rows_def)
  have stamps: "map data_hora january_rows = [Some (january 1 0), Some (january 1 1), Some (january 2 2)]"
    using read_data_unparsed_timestamp_fails_file [of _ reference_library january_frame _ january_rows]
      january_decoded rows january_survivors
    by simp
  have header: "read_metadata reference_library (metadata_lines bad_date_entry) =
      ([], Some (station_example (Parsed may_13_2000)))"
    by (simp add: bad_date_entry_def example_header_read)
  have table: "read_data reference_library (csv_table bad_date_entry) = Inl ValueError"
    using raised by (simp add: bad_date_entry_def)
  have "process_files reference_library (bad_date_entry # []) ([], []) =
      process_files reference_library [] ([], [] @ [] @ [Erro_ao_processar (filename bad_date_entry) ValueError])"
    using read_data_unparsed_timestamp_fails_file
        [of _ reference_library _ _ _ bad_date_entry "[]" _ ValueError "[]" "[]" "[]"]
      header table
    by blast
  then have "process_files reference_library [bad_date_entry] ([], []) =
      ([], [Erro_ao_processar (filename bad_date_entry) ValueError])"
    by simp
  then show ?thesis
    using r s unparsed raised january_decoded stamps header by blast
qed

text \<open>
  The claim as it was stated fails on the file whose second row has the date 30 February:
  \<^verbatim>\<open>read_data\<close> raises, the first row is not returned, and the archive that holds this
  file yields no row.
\<close>

lemma eligible_examples: "eligible complete_entry" "eligible bad_date_entry" "eligible truncated_entry"
  by (simp_all add: eligible_def complete_entry_def bad_date_entry_def truncated_entry_def
      endswith_def startswith_def lower_eval)

theorem read_data_row_dropped_counterexample:
  "read_data reference_library (Inr bad_date_frame) = Inl ValueError
   \<and> read_data reference_library (Inr bad_date_frame) \<noteq>
       Inr [\<lparr>measurements = measured (Num 20) (Num 80), data_hora = Some (january 28 0)\<rparr>]
   \<and> read_zipfile reference_library [bad_date_entry] =
       ([], [Erro_ao_processar (filename bad_date_entry) ValueError])"
proof -
  have "read_metadata reference_library (metadata_lines bad_date_entry) =
      ([], Some (station_example (Parsed may_13_2000)))"
    by (simp add: bad_date_entry_def example_header_read)
  moreover have "read_data reference_library (csv_table bad_date_entry) = Inl ValueError"
    using bad_date_raises by (simp add: bad_date_entry_def)
  ultimately have "process_files reference_library [bad_date_entry] ([], []) =
      ([], [Erro_ao_processar (filename bad_date_entry) ValueError])"
    by simp
  then show ?thesis
    using bad_date_raises eligible_examples(2) by (simp add: read_zipfile_def)
qed


section \<open>Properties of the ArchiveIngester\<close>

text \<open>The loop adds up what the files contribute one by one.\<close>

lemma process_files_accumulates:
  "process_files lib files (data, out) =
     (data @ concat (map (file_rows lib) files), out @ concat (map (file_messages lib) files))"
proof (induction files arbitrary: data out)
  case Nil
  show ?case by simp
next
  case (Cons zf files)
  obtain printed result where meta: "read_metadata lib (metadata_lines zf) = (printed, result)"
    by (cases "read_metadata lib (metadata_lines zf)")
  show ?case
  proof (cases result)
    case None
    then show ?thesis
      using meta Cons.IH by (simp add: file_rows_def file_messages_def)
  next
    case (Some m)
    then show ?thesis
      using meta Cons.IH
      by (cases "read_data lib (csv_table zf)") (simp_all add: file_rows_def file_messages_def)
  qed
qed

lemma read_zipfile_rows:
  "fst (read_zipfile lib z) = concat (map (file_rows lib) (filter eligible z))"
  by (simp add: read_zipfile_def Let_def process_files_accumulates)

lemma read_metadata_messages:
  "read_metadata lib reader = (printed, None) \<Longrightarrow> length printed = 1"
  "read_metadata lib reader = (printed, Some m) \<Longrightarrow> printed = []"
  by (auto simp: read_metadata_def split: sum.splits)

lemma failing_file:
  assumes "file_fails lib zf"
  shows "file_rows lib zf = []" and "length (file_messages lib zf) = 1"
proof -
  obtain printed result where meta: "read_metadata lib (metadata_lines zf) = (printed, result)"
    by (cases "read_metadata lib (metadata_lines zf)")
  show "file_rows lib zf = []"
    using assms meta
    by (cases result; cases "read_data lib (csv_table zf)")
       (simp_all add: file_rows_def file_fails_def)
  show "length (file_messages lib zf) = 1"
    using assms meta read_metadata_messages [of lib "metadata_lines zf" printed]
    by (cases result; cases "read_data lib (csv_table zf)")
       (simp_all add: file_messages_def file_fails_def)
qed

lemma truncated_header_read:
  "read_metadata reference_library (metadata_lines truncated_entry) =
     ([Erro_ao_ler_metadados StopIteration], None)"
  by (simp add: truncated_entry_def header_example_def read_metadata_def read_metadata_try_def
      next_value_def and_then_def)

lemma complete_header_read:
  "read_metadata reference_library (metadata_lines complete_entry) =
     ([], Some (station_example (Parsed may_13_2000)))"
  by (simp add: complete_entry_def example_header_read)

lemma complete_table_read:
  "read_data reference_library (csv_table complete_entry) = Inr january_rows"
  by (simp add: complete_entry_def january_decoded)

lemma example_files:
  "file_rows reference_library complete_entry =
     map (assign_meta (station_example (Parsed may_13_2000))) january_rows"
  "file_messages reference_library complete_entry = []"
  "file_rows reference_library truncated_entry = []"
  "file_messages reference_library truncated_entry = [Erro_ao_ler_metadados StopIteration]"
  "file_fails reference_library truncated_entry"
  by (simp_all add: file_rows_def file_messages_def file_fails_def truncated_header_read
      complete_header_read complete_table_read)

text \<open>
  Claim C3.  An exception raised while one entry is processed (a metadata header that is
  cut short or malformed, or an error of \<^verbatim>\<open>read_data\<close>) is caught and printed, and the
  remaining entries are processed: the run returns the rows of all files, each file
  adding its own rows and messages; a failing file adds no row and exactly one message,
  and the frame is what it would be without that file.  For the archive with the complete
  file and the file with the truncated header, in either order, the frame holds exactly
  the rows of the complete file and one failure is printed.
\<close>

theorem read_zipfile_partial_failure:
  "process_files lib files (data, out) =
     (data @ concat (map (file_rows lib) files), out @ concat (map (file_messages lib) files))
   \<and> (eligible zf \<and> file_fails lib zf \<longrightarrow>
        file_rows lib zf = [] \<and> length (file_messages lib zf) = 1
        \<and> fst (read_zipfile lib (before @ zf # after)) = fst (read_zipfile lib (before @ after))
        \<and> snd (read_zipfile lib (before @ zf # after)) =
            concat (map (file_messages lib) (filter eligible before)) @ file_messages lib zf
            @ concat (map (file_messages lib) (filter eligible after)))
   \<and> read_zipfile reference_library [complete_entry, truncated_entry] =
       (map (assign_meta (station_example (Parsed may_13_2000))) january_rows,
        [Erro_ao_ler_metadados StopIteration])
   \<and> read_zipfile reference_library [truncated_entry, complete_entry] =
       (map (assign_meta (station_example (Parsed may_13_2000))) january_rows,
        [Erro_ao_ler_metadados StopIteration])"
proof -
  have failing: "eligible zf \<and> file_fails lib zf \<longrightarrow>
        file_rows lib zf = [] \<and> length (file_messages lib zf) = 1
        \<and> fst (read_zipfile lib (before @ zf # after)) = fst (read_zipfile lib (before @ after))
        \<and> snd (read_zipfile lib (before @ zf # after)) =
            concat (map (file_messages lib) (filter eligible before)) @ file_messages lib zf
            @ concat (map (file_messages lib) (filter eligible after))"
  proof
    assume a: "eligible zf \<and> file_fails lib zf"
    then have none: "file_rows lib zf = []" and one: "length (file_messages lib zf) = 1"
      using failing_file by blast+
    have rows: "fst (read_zipfile lib (before @ zf # after)) = fst (read_zipfile lib (before @ after))"
      using a none by (simp add: read_zipfile_rows)
    have "filter eligible (before @ zf # after) \<noteq> []"
      using a by simp
    then have "snd (read_zipfile lib (before @ zf # after)) =
        concat (map (file_messages lib) (filter eligible (before @ zf # after)))"
      by (simp add: read_zipfile_def Let_def process_files_accumulates)
    then have "snd (read_zipfile lib (before @ zf # after)) =
        concat (map (file_messages lib) (filter eligible before)) @ file_messages lib zf
        @ concat (map (file_messages lib) (filter eligible after))"
      using a by simp
    then show "file_rows lib zf = [] \<and> length (file_messages lib zf) = 1
        \<and> fst (read_zipfile lib (before @ zf # after)) = fst (read_zipfile lib (before @ after))
        \<and> snd (read_zipfile lib (before @ zf # after)) =
            concat (map (file_messages lib) (filter eligible before)) @ file_messages lib zf
            @ concat (map (file_messages lib) (filter eligible after))"
      using none one rows by blast
  qed
  have two_files: "read_zipfile reference_library [complete_entry, truncated_entry] =
       (map (assign_meta (station_example (Parsed may_13_2000))) january_rows,
        [Erro_ao_ler_metadados StopIteration])"
    "read_zipfile reference_library [truncated_entry, complete_entry] =
       (map (assign_meta (station_example (Parsed may_13_2000))) january_rows,
        [Erro_ao_ler_metadados StopIteration])"
    by (simp_all add: read_zipfile_def eligible_examples process_files_accumulates example_files)
  show ?thesis
    using process_files_accumulates failing two_files by blast
qed

theorem read_zipfile_partial_failure_witness:
  "eligible truncated_entry \<and> file_fails reference_library truncated_entry
   \<and> file_rows reference_library truncated_entry = []
   \<and> file_messages reference_library truncated_entry = [Erro_ao_ler_metadados StopIteration]
   \<and> fst (read_zipfile reference_library ([complete_entry] @ truncated_entry # [complete_entry])) =
       fst (read_zipfile reference_library ([complete_entry] @ [complete_entry]))
   \<and> snd (read_zipfile reference_library ([complete_entry] @ truncated_entry # [complete_entry])) =
       [Erro_ao_ler_metadados StopIteration]"
  using read_zipfile_partial_failure
      [of reference_library _ _ _ truncated_entry "[complete_entry]" "[complete_entry]"]
    eligible_examples example_files
  by simp


section \<open>Properties of the Aggregator\<close>

lemma defined_values_filter:
  "defined_values vs =
     map (\<lambda>v. case v of Num x \<Rightarrow> x | NaN \<Rightarrow> 0) (filter (\<lambda>v. v \<noteq> NaN) vs)"
  unfolding defined_values_def by (induction vs) (auto split: pyfloat.splits)

lemma defined_values_mset:
  assumes "mset vs = mset ws"
  shows "mset (defined_values vs) = mset (defined_values ws)"
proof -
  have "mset (filter (\<lambda>v. v \<noteq> NaN) vs) = mset (filter (\<lambda>v. v \<noteq> NaN) ws)"
    using assms by (metis mset_filter)
  then show ?thesis
    unfolding defined_values_filter by (metis mset_map)
qed

lemma mean_mset:
  assumes "mset vs = mset ws"
  shows "mean vs = mean ws"
proof -
  have m: "mset (defined_values vs) = mset (defined_values ws)"
    using assms by (rule defined_values_mset)
  then have "sum_list (defined_values vs) = sum_list (defined_values ws)"
    by (metis sum_mset_sum_list)
  moreover have "length (defined_values vs) = length (defined_values ws)"
    using m by (metis size_mset)
  moreover have "defined_values vs = [] \<longleftrightarrow> defined_values ws = []"
    using m by (metis mset_zero_iff)
  ultimately show ?thesis
    by (simp add: mean_def Let_def)
qed

lemma set_map_filter_Some: "set (List.map_filter f xs) = {y. \<exists>x\<in>set xs. f x = Some y}"
  by (induction xs) (auto simp: map_filter_simps split: option.splits)

lemma group_keys_set:
  "set (group_keys lib df) = {k. \<exists>r\<in>set df. group_key lib r = Some k}"
  by (auto simp: group_keys_def set_map_filter_Some)

lemma group_keys_distinct: "distinct (group_keys lib df)"
  by (simp add: group_keys_def)

lemma group_keys_mset:
  assumes "mset df = mset df'"
  shows "group_keys lib df = group_keys lib df'"
proof -
  have "set df = set df'"
    using assms by (rule mset_eq_setD)
  then have "set (remdups (List.map_filter (group_key lib) df)) =
      set (remdups (List.map_filter (group_key lib) df'))"
    by (simp add: set_map_filter_Some)
  then have "sort (remdups (List.map_filter (group_key lib) df)) =
      sort (remdups (List.map_filter (group_key lib) df'))"
    by (metis sorted_list_of_set_sort_remdups set_remdups)
  then show ?thesis
    by (simp add: group_keys_def)
qed

lemma group_entry_mset:
  assumes "mset df = mset df'"
  shows "group_entry lib df k = group_entry lib df' k"
proof -
  have "mset (map f (filter P df)) = mset (map f (filter P df'))" for f :: "row \<Rightarrow> pyfloat" and P
    using assms by (metis mset_filter mset_map)
  then show ?thesis
    by (simp add: group_entry_def Let_def mean_mset)
qed

lemma has_column_mset:
  assumes "mset df = mset df'"
  shows "has_column df c = has_column df' c"
  using mset_eq_setD [OF assms] by (simp add: has_column_def list_ex_iff)

text \<open>
  Claim C8.  The aggregation does not depend on the order of the rows: on a permutation
  of the frame it returns the same entries, with the same means (the arithmetic is that
  of the rationals), in the same order.
\<close>

theorem media_regional_mensal_row_order:
  "mset df = mset df' \<longrightarrow> media_regional_mensal lib df = media_regional_mensal lib df'"
proof
  assume a: "mset df = mset df'"
  have "map (group_entry lib df) (group_keys lib df) = map (group_entry lib df') (group_keys lib df')"
    using a group_keys_mset group_entry_mset by (metis map_eq_conv)
  then show "media_regional_mensal lib df = media_regional_mensal lib df'"
    using a by (simp add: media_regional_mensal_def has_column_mset [OF a])
qed


theorem media_regional_mensal_row_order_witness:
  "mset (rev january_dataset) = mset january_dataset
   \<and> media_regional_mensal reference_library (rev january_dataset) =
       media_regional_mensal reference_library january_dataset"
  using media_regional_mensal_row_order [of "rev january_dataset" january_dataset reference_library]
  by simp

subsection \<open>Groups and their means\<close>

lemma group_key_in_group:
  "group_key lib r = Some (g, m, n) \<longleftrightarrow> in_group r g m \<and> n = month_name lib m"
  by (auto simp: group_key_def in_group_def split: option.splits)

lemma group_keys_member:
  "k \<in> set (group_keys lib df) \<longleftrightarrow>
     (\<exists>r\<in>set df. in_group r (fst k) (fst (snd k))) \<and> snd (snd k) = month_name lib (fst (snd k))"
proof -
  obtain g m n where k: "k = (g, m, n)"
    by (cases k)
  show ?thesis
    unfolding k by (auto simp: group_keys_set group_key_in_group)
qed

lemma group_filter:
  assumes "k \<in> set (group_keys lib df)"
  shows "filter (\<lambda>r. group_key lib r = Some k) df = filter (\<lambda>r. in_group r (fst k) (fst (snd k))) df"
proof -
  obtain g m n where k: "k = (g, m, n)"
    by (cases k)
  have "n = month_name lib m"
    using assms by (simp add: k group_keys_member)
  then show ?thesis
    by (simp add: k group_key_in_group)
qed

lemma media_Inr:
  "media_regional_mensal lib df = Inr entries \<Longrightarrow>
     entries = map (group_entry lib df) (group_keys lib df)"
  by (auto simp: media_regional_mensal_def split: if_splits)

lemma group_entry_key:
  "entry_regiao (group_entry lib df k) = fst k" "mes_num (group_entry lib df k) = fst (snd k)"
  "mes_nome (group_entry lib df k) = snd (snd k)"
  by (simp_all add: group_entry_def Let_def)

subsection \<open>The January example\<close>

lemma cell_measured:
  "cell \<lparr>measurements = measured a b, data_hora = t, meta = m\<rparr> ''temperatura_ar'' = a"
  "cell \<lparr>measurements = measured a b, data_hora = t, meta = m\<rparr> ''umidade_relativa'' = b"
  by (simp_all add: cell_def measured_def numeric_cols_def)

lemma measured_columns:
  "''temperatura_ar'' \<in> fst ` set (measured a b)"
  "''umidade_relativa'' \<in> fst ` set (measured a b)"
  by (simp_all add: measured_def numeric_cols_def)

lemma january_dataset_rows:
  "january_dataset =
     [\<lparr>measurements = measured (Num 20) (Num 80), data_hora = Some (january 1 0),
        meta = station_example (Parsed may_13_2000)\<rparr>,
      \<lparr>measurements = measured (Num 22) NaN, data_hora = Some (january 1 1),
        meta = station_example (Parsed may_13_2000)\<rparr>,
      \<lparr>measurements = measured NaN (Num 70), data_hora = Some (january 2 2),
        meta = station_example (Parsed may_13_2000)\<rparr>]"
  by (simp add: january_dataset_def january_rows_def assign_meta_def)

lemma january_group_key:
  "group_key lib \<lparr>measurements = ms, data_hora = Some (january d h),
     meta = station_example f\<rparr> = Some (''NE'', 1, month_name lib 1)"
  by (simp add: group_key_def january_def station_example_def)

lemma january_aggregate:
  "media_regional_mensal lib january_dataset =
     Inr [\<lparr>entry_regiao = ''NE'', mes_num = 1, mes_nome = month_name lib 1,
           temperatura_media = Num 21, umidade_media = Num 75\<rparr>]"
proof -
  have keys: "group_keys lib january_dataset = [(''NE'', 1, month_name lib 1)]"
    unfolding group_keys_def january_dataset_rows
    by (simp add: map_filter_simps january_group_key)
  have columns: "has_column january_dataset ''temperatura_ar''"
    "has_column january_dataset ''umidade_relativa''"
    unfolding january_dataset_rows has_column_def
    by (simp_all add: measured_columns)
  have entry: "group_entry lib january_dataset (''NE'', 1, month_name lib 1) =
      \<lparr>entry_regiao = ''NE'', mes_num = 1, mes_nome = month_name lib 1,
       temperatura_media = Num 21, umidade_media = Num 75\<rparr>"
    unfolding group_entry_def january_dataset_rows
    by (simp add: january_group_key cell_measured mean_def defined_values_def)
  have "map (group_entry lib january_dataset) (group_keys lib january_dataset) =
      [\<lparr>entry_regiao = ''NE'', mes_num = 1, mes_nome = month_name lib 1,
        temperatura_media = Num 21, umidade_media = Num 75\<rparr>]"
    by (simp only: keys list.map entry)
  then show ?thesis
    by (simp only: media_regional_mensal_def columns simp_thms if_True)
qed

lemma january_columns:
  "has_column january_dataset ''temperatura_ar''"
  "has_column january_dataset ''umidade_relativa''"
  unfolding january_dataset_rows has_column_def
  by (simp_all add: measured_columns)

text \<open>With both columns in the frame the aggregation returns one entry per group.\<close>

lemma media_with_columns:
  "has_column df ''temperatura_ar'' \<and> has_column df ''umidade_relativa'' \<Longrightarrow>
     media_regional_mensal lib df = Inr (map (group_entry lib df) (group_keys lib df))"
  by (simp add: media_regional_mensal_def)

lemma group_entry_means:
  assumes k: "k \<in> set (group_keys lib df)" and e: "e = group_entry lib df k"
  shows "filter (\<lambda>r. in_group r (entry_regiao e) (mes_num e)) df \<noteq> []
      \<and> mes_nome e = month_name lib (mes_num e)
      \<and> temperatura_media e =
          (let ts = defined_values (map (\<lambda>r. cell r ''temperatura_ar'')
                      (filter (\<lambda>r. in_group r (entry_regiao e) (mes_num e)) df))
           in if ts = [] then NaN else Num (sum_list ts / of_nat (length ts)))
      \<and> umidade_media e =
          (let us = defined_values (map (\<lambda>r. cell r ''umidade_relativa'')
                      (filter (\<lambda>r. in_group r (entry_regiao e) (mes_num e)) df))
           in if us = [] then NaN else Num (sum_list us / of_nat (length us)))"
proof -
  have key: "entry_regiao e = fst k" "mes_num e = fst (snd k)" "mes_nome e = snd (snd k)"
    by (simp_all add: e group_entry_key)
  have grp: "filter (\<lambda>r. group_key lib r = Some k) df =
      filter (\<lambda>r. in_group r (entry_regiao e) (mes_num e)) df"
    using group_filter [OF k] by (simp add: key)
  have nonempty: "filter (\<lambda>r. in_group r (entry_regiao e) (mes_num e)) df \<noteq> []"
    using k by (auto simp: group_keys_member key filter_empty_conv)
  have name: "mes_nome e = month_name lib (mes_num e)"
    using k by (simp add: group_keys_member key)
  have "temperatura_media e =
      mean (map (\<lambda>r. cell r ''temperatura_ar'') (filter (\<lambda>r. group_key lib r = Some k) df))"
    "umidade_media e =
      mean (map (\<lambda>r. cell r ''umidade_relativa'') (filter (\<lambda>r. group_key lib r = Some k) df))"
    by (simp_all add: e group_entry_def Let_def)
  then show ?thesis
    using nonempty name unfolding grp mean_def by simp
qed

subsection \<open>The file without numeric columns\<close>

lemma unnamed_header_read:
  "read_metadata reference_library (metadata_lines unnamed_entry) =
     ([], Some (station_example (Parsed may_13_2000)))"
  by (simp add: unnamed_entry_def example_header_read)

lemma unnamed_entry_eligible: "eligible unnamed_entry"
  by (simp add: eligible_def unnamed_entry_def endswith_def startswith_def lower_eval)

lemma unnamed_run: "read_zipfile reference_library [unnamed_entry] = (unnamed_dataset, [])"
proof -
  have "read_data reference_library (csv_table unnamed_entry) =
      Inr [\<lparr>measurements = [], data_hora = Some (january 1 0)\<rparr>]"
    using unnamed_decoded by (simp add: unnamed_entry_def)
  then have "process_files reference_library [unnamed_entry] ([], []) = (unnamed_dataset, [])"
    using unnamed_header_read by (simp add: unnamed_dataset_def assign_meta_def)
  then show ?thesis
    using unnamed_entry_eligible by (simp add: read_zipfile_def)
qed

lemma unnamed_no_column: "\<not> has_column unnamed_dataset ''temperatura_ar''"
  by (simp add: has_column_def unnamed_dataset_def)

lemma unnamed_in_group: "list_ex (\<lambda>r. in_group r ''NE'' 1) unnamed_dataset"
  by (simp add: unnamed_dataset_def in_group_def station_example_def january_def)

text \<open>
  Claim C6, as amended.  When the frame has the columns \<open>temperatura_ar\<close> and
  \<open>umidade_relativa\<close> (each came with at least one file), the aggregation returns entries;
  every entry belongs to a region and a month that have at least one row, and its two
  means are the arithmetic means of the defined air temperatures and of the defined
  relative humidities of the rows of that region and month; a field that is undefined in
  all these rows has the mean NaN.  The January rows of region NE, with the temperatures
  20.0, 22.0 and undefined and the humidities 80.0, undefined and 70.0, give the single
  entry with the means 21.0 and 75.0.
\<close>

theorem media_regional_mensal_means:
  "(has_column df ''temperatura_ar'' \<and> has_column df ''umidade_relativa'' \<longrightarrow>
      (\<exists>entries. media_regional_mensal lib df = Inr entries \<and>
         list_all (\<lambda>e.
      filter (\<lambda>r. in_group r (entry_regiao e) (mes_num e)) df \<noteq> []
      \<and> mes_nome e = month_name lib (mes_num e)
      \<and> temperatura_media e =
          (let ts = defined_values (map (\<lambda>r. cell r ''temperatura_ar'')
                      (filter (\<lambda>r. in_group r (entry_regiao e) (mes_num e)) df))
           in if ts = [] then NaN else Num (sum_list ts / of_nat (length ts)))
      \<and> umidade_media e =
          (let us = defined_values (map (\<lambda>r. cell r ''umidade_relativa'')
                      (filter (\<lambda>r. in_group r (entry_regiao e) (mes_num e)) df))
           in if us = [] then NaN else Num (sum_list us / of_nat (length us)))) entries))
   \<and> media_regional_mensal lib january_dataset =
       Inr [\<lparr>entry_regiao = ''NE'', mes_num = 1, mes_nome = month_name lib 1,
             temperatura_media = Num 21, umidade_media = Num 75\<rparr>]"
proof -
  have general: "has_column df ''temperatura_ar'' \<and> has_column df ''umidade_relativa'' \<longrightarrow>
      (\<exists>entries. media_regional_mensal lib df = Inr entries \<and>
         list_all (\<lambda>e.
      filter (\<lambda>r. in_group r (entry_regiao e) (mes_num e)) df \<noteq> []
      \<and> mes_nome e = month_name lib (mes_num e)
      \<and> temperatura_media e =
          (let ts = defined_values (map (\<lambda>r. cell r ''temperatura_ar'')
                      (filter (\<lambda>r. in_group r (entry_regiao e) (mes_num e)) df))
           in if ts = [] then NaN else Num (sum_list ts / of_nat (length ts)))
      \<and> umidade_media e =
          (let us = defined_values (map (\<lambda>r. cell r ''umidade_relativa'')
                      (filter (\<lambda>r. in_group r (entry_regiao e) (mes_num e)) df))
           in if us = [] then NaN else Num (sum_list us / of_nat (length us)))) entries)"
  proof
    assume a: "has_column df ''temperatura_ar'' \<and> has_column df ''umidade_relativa''"
    let ?entries = "map (group_entry lib df) (group_keys lib df)"
    have run: "media_regional_mensal lib df = Inr ?entries"
      using a by (rule media_with_columns)
    have "\<forall>e\<in>set ?entries.
      filter (\<lambda>r. in_group r (entry_regiao e) (mes_num e)) df \<noteq> []
      \<and> mes_nome e = month_name lib (mes_num e)
      \<and> temperatura_media e =
          (let ts = defined_values (map (\<lambda>r. cell r ''temperatura_ar'')
                      (filter (\<lambda>r. in_group r (entry_regiao e) (mes_num e)) df))
           in if ts = [] then NaN else Num (sum_list ts / of_nat (length ts)))
      \<and> umidade_media e =
          (let us = defined_values (map (\<lambda>r. cell r ''umidade_relativa'')
                      (filter (\<lambda>r. in_group r (entry_regiao e) (mes_num e)) df))
           in if us = [] then NaN else Num (sum_list us / of_nat (length us)))"
    proof
      fix e assume "e \<in> set ?entries"
      then obtain k where "k \<in> set (group_keys lib df)" "e = group_entry lib df k"
        by auto
      then show "filter (\<lambda>r. in_group r (entry_regiao e) (mes_num e)) df \<noteq> []
      \<and> mes_nome e = month_name lib (mes_num e)
      \<and> temperatura_media e =
          (let ts = defined_values (map (\<lambda>r. cell r ''temperatura_ar'')
                      (filter (\<lambda>r. in_group r (entry_regiao e) (mes_num e)) df))
           in if ts = [] then NaN else Num (sum_list ts / of_nat (length ts)))
      \<and> umidade_media e =
          (let us = defined_values (map (\<lambda>r. cell r ''umidade_relativa'')
                      (filter (\<lambda>r. in_group r (entry_regiao e) (mes_num e)) df))
           in if us = [] then NaN else Num (sum_list us / of_nat (length us)))"
        by (rule group_entry_means)
    qed
    then have "list_all (\<lambda>e.
      filter (\<lambda>r. in_group r (entry_regiao e) (mes_num e)) df \<noteq> []
      \<and> mes_nome e = month_name lib (mes_num e)
      \<and> temperatura_media e =
          (let ts = defined_values (map (\<lambda>r. cell r ''temperatura_ar'')
                      (filter (\<lambda>r. in_group r (entry_regiao e) (mes_num e)) df))
           in if ts = [] then NaN else Num (sum_list ts / of_nat (length ts)))
      \<and> umidade_media e =
          (let us = defined_values (map (\<lambda>r. cell r ''umidade_relativa'')
                      (filter (\<lambda>r. in_group r (entry_regiao e) (mes_num e)) df))
           in if us = [] then NaN else Num (sum_list us / of_nat (length us)))) ?entries"
      by (simp only: list_all_iff)
    then show "\<exists>entries. media_regional_mensal lib df = Inr entries \<and>
         list_all (\<lambda>e.
      filter (\<lambda>r. in_group r (entry_regiao e) (mes_num e)) df \<noteq> []
      \<and> mes_nome e = month_name lib (mes_num e)
      \<and> temperatura_media e =
          (let ts = defined_values (map (\<lambda>r. cell r ''temperatura_ar'')
                      (filter (\<lambda>r. in_group r (entry_regiao e) (mes_num e)) df))
           in if ts = [] then NaN else Num (sum_list ts / of_nat (length ts)))
      \<and> umidade_media e =
          (let us = defined_values (map (\<lambda>r. cell r ''umidade_relativa'')
                      (filter (\<lambda>r. in_group r (entry_regiao e) (mes_num e)) df))
           in if us = [] then NaN else Num (sum_list us / of_nat (length us)))) entries"
      using run by blast
  qed
  show ?thesis
    using general january_aggregate by blast
qed

theorem media_regional_mensal_means_witness:
  "has_column january_dataset ''temperatura_ar'' \<and> has_column january_dataset ''umidade_relativa''
   \<and> media_regional_mensal reference_library january_dataset =
     Inr [\<lparr>entry_regiao = ''NE'', mes_num = 1, mes_nome = ''janeiro'',
           temperatura_media = Num 21, umidade_media = Num 75\<rparr>]
   \<and> filter (\<lambda>r. in_group r ''NE'' 1) january_dataset \<noteq> []
   \<and> Num 21 =
       (let ts = defined_values (map (\<lambda>r. cell r ''temperatura_ar'')
                   (filter (\<lambda>r. in_group r ''NE'' 1) january_dataset))
        in if ts = [] then NaN else Num (sum_list ts / of_nat (length ts)))
   \<and> Num 75 =
       (let us = defined_values (map (\<lambda>r. cell r ''umidade_relativa'')
                   (filter (\<lambda>r. in_group r ''NE'' 1) january_dataset))
        in if us = [] then NaN else Num (sum_list us / of_nat (length us)))"
proof -
  let ?e = "\<lparr>entry_regiao = ''NE'', mes_num = 1, mes_nome = ''janeiro'',
    temperatura_media = Num 21, umidade_media = Num 75\<rparr>"
  have run: "media_regional_mensal reference_library january_dataset = Inr [?e]"
    using january_aggregate [of reference_library] by (simp add: reference_selectors nome_do_mes_def)
  obtain entries where entries: "media_regional_mensal reference_library january_dataset = Inr entries"
    and means: "list_all (\<lambda>e.
      filter (\<lambda>r. in_group r (entry_regiao e) (mes_num e)) january_dataset \<noteq> []
      \<and> mes_nome e = month_name reference_library (mes_num e)
      \<and> temperatura_media e =
          (let ts = defined_values (map (\<lambda>r. cell r ''temperatura_ar'')
                      (filter (\<lambda>r. in_group r (entry_regiao e) (mes_num e)) january_dataset))
           in if ts = [] then NaN else Num (sum_list ts / of_nat (length ts)))
      \<and> umidade_media e =
          (let us = defined_values (map (\<lambda>r. cell r ''umidade_relativa'')
                      (filter (\<lambda>r. in_group r (entry_regiao e) (mes_num e)) january_dataset))
           in if us = [] then NaN else Num (sum_list us / of_nat (length us)))) entries"
    using media_regional_mensal_means [of january_dataset reference_library] january_columns
    by blast
  have "entries = [?e]"
    using entries run by simp
  then show ?thesis
    using means run january_columns by simp
qed

text \<open>
  The claim as it was stated fails on the frame of the file without numeric columns: the
  group of region NE and January has a row, its temperature is undefined in every row,
  and the aggregation raises instead of returning an undefined mean.
\<close>

theorem media_regional_mensal_missing_column_counterexample:
  "read_zipfile reference_library [unnamed_entry] = (unnamed_dataset, [])
   \<and> list_ex (\<lambda>r. in_group r ''NE'' 1) unnamed_dataset
   \<and> list_all (\<lambda>r. cell r ''temperatura_ar'' = NaN) unnamed_dataset
   \<and> media_regional_mensal reference_library unnamed_dataset = Inl KeyError"
  using unnamed_run unnamed_in_group unnamed_no_column
  by (simp add: media_regional_mensal_def unnamed_dataset_def cell_def)

end
